theory Spec2Isabelle
  imports Complex_Main
begin

section \<open>Data model\<close>

text \<open>
  Coordinates are Python floats in the source, IEEE 754 doubles. A coordinate is a real
  number here, and the arithmetic of the code is the exact one, with two exceptions that
  are modelled as the doubles behave: the subtraction of the coordinate flip is also given
  with its rounding (\<open>flip_y_double\<close>), and the squares of the Euclidean length raise
  \<open>OverflowError\<close> where the squares of doubles do (\<open>square_raises\<close>).
  A point is the pair \<open>(x, y)\<close>; the source reads it as \<open>point[0]\<close>, \<open>point[1]\<close>.
\<close>

type_synonym point = "real \<times> real"

datatype error = ValueError | KeyError | IndexError | ZeroDivisionError | OverflowError

section \<open>IEEE doubles\<close>

text \<open>
  A finite double is an integer multiple of a power of two: in the binade
  \<open>2\<^sup>k \<le> |x| < 2\<^sup>k\<^sup>+\<^sup>1\<close> the multiples of \<open>2\<^sup>k\<^sup>-\<^sup>5\<^sup>2\<close>, and below \<open>2\<^sup>-\<^sup>1\<^sup>0\<^sup>2\<^sup>2\<close> the
  multiples of \<open>2\<^sup>-\<^sup>1\<^sup>0\<^sup>7\<^sup>4\<close>. An operation on doubles returns the exact result
  rounded to the nearest of these multiples, a tie going to the even one
  (\<open>round_double\<close>); a rounded result of magnitude \<open>2\<^sup>1\<^sup>0\<^sup>2\<^sup>4\<close> or more is an
  infinity.
\<close>

definition round_half_even :: "real \<Rightarrow> int" where
  "round_half_even q =
     (let f = \<lfloor>q\<rfloor>; r = q - of_int f in
      if r < 1 / 2 then f
      else if 1 / 2 < r then f + 1
      else if even f then f else f + 1)"

definition pow2 :: "int \<Rightarrow> real" where
  "pow2 e = (if 0 \<le> e then 2 ^ nat e else 1 / 2 ^ nat (- e))"

definition quantum :: "real \<Rightarrow> int" where
  "quantum x = max (\<lfloor>log 2 \<bar>x\<bar>\<rfloor> - 52) (- 1074)"

definition round_double :: "real \<Rightarrow> real" where
  "round_double x =
     (if x = 0 then 0
      else of_int (round_half_even (x / pow2 (quantum x))) * pow2 (quantum x))"

definition is_double :: "real \<Rightarrow> bool" where
  "is_double x = (round_double x = x \<and> \<bar>x\<bar> < 2 ^ 1024)"

text \<open>
  \<open>a - b\<close> on two doubles; \<open>None\<close> is an infinite result, which is no real number.
\<close>

definition double_sub :: "real \<Rightarrow> real \<Rightarrow> real option" where
  "double_sub a b =
     (let r = round_double (a - b) in if \<bar>r\<bar> < 2 ^ 1024 then Some r else None)"

section \<open>svg_to_dxf.py: coordinate flip\<close>

text \<open>\<open>flip_y(point, height)\<close>: the height is \<open>None\<close> when it could not be resolved.\<close>

definition flip_y :: "point \<Rightarrow> real option \<Rightarrow> point" where
  "flip_y point height =
     (case height of
        None \<Rightarrow> point
      | Some h \<Rightarrow> (fst point, h - snd point))"

definition flip_y_list :: "point list \<Rightarrow> real option \<Rightarrow> point list" where
  "flip_y_list points height =
     (case height of
        None \<Rightarrow> points
      | Some h \<Rightarrow> map (\<lambda>p. flip_y p height) points)"

text \<open>
  \<open>flip_y\<close> on doubles: the same function with the subtraction as the doubles do it.
  The point and the height are doubles; \<open>None\<close> is a point with an infinite coordinate.
\<close>

definition flip_y_double :: "point \<Rightarrow> real option \<Rightarrow> point option" where
  "flip_y_double point height =
     (case height of
        None \<Rightarrow> Some point
      | Some h \<Rightarrow>
          (case double_sub h (snd point) of
             None \<Rightarrow> None
           | Some y \<Rightarrow> Some (fst point, y)))"

section \<open>svg_to_dxf.py: curve flattening\<close>

text \<open>
  \<open>approximate_cubic_bezier(p0, p1, p2, p3, num_points=20)\<close>. The loop runs over
  \<open>range(num_points + 1)\<close>, which is empty for a negative \<open>num_points\<close>; for
  \<open>num_points = 0\<close> the first iteration divides by zero.
\<close>

definition cubic_point :: "point \<Rightarrow> point \<Rightarrow> point \<Rightarrow> point \<Rightarrow> int \<Rightarrow> int \<Rightarrow> point" where
  "cubic_point p0 p1 p2 p3 num_points i =
     (let t = real_of_int i / real_of_int num_points;
          x = (1 - t) ^ 3 * fst p0 + 3 * (1 - t) ^ 2 * t * fst p1
              + 3 * (1 - t) * t ^ 2 * fst p2 + t ^ 3 * fst p3;
          y = (1 - t) ^ 3 * snd p0 + 3 * (1 - t) ^ 2 * t * snd p1
              + 3 * (1 - t) * t ^ 2 * snd p2 + t ^ 3 * snd p3
      in (x, y))"

definition approximate_cubic_bezier_n ::
  "point \<Rightarrow> point \<Rightarrow> point \<Rightarrow> point \<Rightarrow> int \<Rightarrow> error + point list" where
  "approximate_cubic_bezier_n p0 p1 p2 p3 num_points =
     (if num_points = 0 then Inl ZeroDivisionError
      else Inr (map (cubic_point p0 p1 p2 p3 num_points) [0..num_points]))"

definition approximate_cubic_bezier ::
  "point \<Rightarrow> point \<Rightarrow> point \<Rightarrow> point \<Rightarrow> error + point list" where
  "approximate_cubic_bezier p0 p1 p2 p3 = approximate_cubic_bezier_n p0 p1 p2 p3 20"

text \<open>\<open>approximate_quadratic_bezier(p0, p1, p2, num_points=15)\<close>.\<close>

definition quadratic_point :: "point \<Rightarrow> point \<Rightarrow> point \<Rightarrow> int \<Rightarrow> int \<Rightarrow> point" where
  "quadratic_point p0 p1 p2 num_points i =
     (let t = real_of_int i / real_of_int num_points;
          x = (1 - t) ^ 2 * fst p0 + 2 * (1 - t) * t * fst p1 + t ^ 2 * fst p2;
          y = (1 - t) ^ 2 * snd p0 + 2 * (1 - t) * t * snd p1 + t ^ 2 * snd p2
      in (x, y))"

definition approximate_quadratic_bezier_n ::
  "point \<Rightarrow> point \<Rightarrow> point \<Rightarrow> int \<Rightarrow> error + point list" where
  "approximate_quadratic_bezier_n p0 p1 p2 num_points =
     (if num_points = 0 then Inl ZeroDivisionError
      else Inr (map (quadratic_point p0 p1 p2 num_points) [0..num_points]))"

definition approximate_quadratic_bezier ::
  "point \<Rightarrow> point \<Rightarrow> point \<Rightarrow> error + point list" where
  "approximate_quadratic_bezier p0 p1 p2 = approximate_quadratic_bezier_n p0 p1 p2 15"

subsection \<open>The B\'ezier formulas as the specification writes them\<close>

text \<open>
  The specification states the curves on points, with a scalar times a point and a sum of
  points: \<open>B(t) = (1-t)\<^sup>3 P0 + 3(1-t)\<^sup>2 t P1 + 3(1-t) t\<^sup>2 P2 + t\<^sup>3 P3\<close> and
  \<open>B(t) = (1-t)\<^sup>2 P0 + 2(1-t) t P1 + t\<^sup>2 P2\<close>.
\<close>

definition scale_pt :: "real \<Rightarrow> point \<Rightarrow> point" where
  "scale_pt c p = (c * fst p, c * snd p)"

definition add_pt :: "point \<Rightarrow> point \<Rightarrow> point" where
  "add_pt p q = (fst p + fst q, snd p + snd q)"

definition spec_cubic_B :: "point \<Rightarrow> point \<Rightarrow> point \<Rightarrow> point \<Rightarrow> real \<Rightarrow> point" where
  "spec_cubic_B P0 P1 P2 P3 t =
     add_pt (add_pt (add_pt (scale_pt ((1 - t) ^ 3) P0) (scale_pt (3 * (1 - t) ^ 2 * t) P1))
                    (scale_pt (3 * (1 - t) * t ^ 2) P2))
            (scale_pt (t ^ 3) P3)"

definition spec_quadratic_B :: "point \<Rightarrow> point \<Rightarrow> point \<Rightarrow> real \<Rightarrow> point" where
  "spec_quadratic_B P0 P1 P2 t =
     add_pt (add_pt (scale_pt ((1 - t) ^ 2) P0) (scale_pt (2 * (1 - t) * t) P1))
            (scale_pt (t ^ 2) P2)"

section \<open>The intermediate document\<close>

text \<open>
  The document is a tree of Python dictionaries. Each dictionary is a record here, and a
  key that may be missing is an \<open>option\<close> field: \<open>d.get(k, default)\<close> reads
  \<open>None\<close> as the default, \<open>d[k]\<close> raises \<open>KeyError\<close> on \<open>None\<close>. The tags
  \<open>type\<close> and \<open>operation\<close> are plain strings, a missing one being the empty string.
\<close>

record seg_data =
  d_start :: "point option"
  d_end :: "point option"
  d_control1 :: "point option"
  d_control2 :: "point option"
  d_control :: "point option"
  d_length :: "real option"
  d_radius :: "point option"
  d_rotation :: "real option"
  d_arc :: "bool option"
  d_sweep :: "bool option"

definition no_data :: seg_data where
  "no_data = \<lparr>d_start = None, d_end = None, d_control1 = None, d_control2 = None,
     d_control = None, d_length = None, d_radius = None, d_rotation = None,
     d_arc = None, d_sweep = None\<rparr>"

record segment =
  seg_type :: string
  operation :: string
  data :: seg_data

record path =
  path_d :: string
  path_fill :: string
  path_stroke :: string
  path_stroke_width :: string
  segments :: "segment list"

record shape =
  sh_type :: string
  sh_x :: "real option"
  sh_y :: "real option"
  sh_width :: "real option"
  sh_height :: "real option"
  sh_corners :: "point list option"
  sh_center :: "point option"
  sh_radius :: "real option"
  sh_radius_x :: "real option"
  sh_radius_y :: "real option"
  sh_start :: "point option"
  sh_end :: "point option"
  sh_length :: "real option"
  sh_points :: "point list option"
  sh_num_points :: "nat option"
  sh_closed :: "bool option"
  sh_fill :: "string option"
  sh_stroke :: "string option"

definition no_shape :: shape where
  "no_shape = \<lparr>sh_type = [], sh_x = None, sh_y = None, sh_width = None, sh_height = None,
     sh_corners = None, sh_center = None, sh_radius = None, sh_radius_x = None,
     sh_radius_y = None, sh_start = None, sh_end = None, sh_length = None,
     sh_points = None, sh_num_points = None, sh_closed = None, sh_fill = None,
     sh_stroke = None\<rparr>"

text \<open>An entry of the \<open>lines\<close> list: \<open>{type: 'line', start, end, length, source}\<close>.\<close>

record cline =
  l_start :: "point option"
  l_end :: "point option"
  l_length :: "real option"
  l_source :: string

text \<open>
  An entry of the \<open>curves\<close> list. Its \<open>data\<close> is the data dictionary of a path segment
  or a whole shape dictionary.
\<close>

datatype payload = SegData seg_data | ShapeData shape

record curve =
  c_type :: string
  c_operation :: "string option"
  c_data :: payload
  c_source :: string

record svg_metadata =
  md_viewBox :: "string option"
  md_width :: "string option"
  md_height :: "string option"

record vector_data =
  metadata :: svg_metadata
  paths :: "path list"
  shapes :: "shape list"
  lines :: "cline list"
  curves :: "curve list"

section \<open>svg_to_dxf.py: drawing entities\<close>

text \<open>
  The modelspace is the list of the entities added so far, in the order of the calls.
  Every \<open>Vec3\<close> the source builds has \<open>z = 0\<close>, so a vertex is kept as a point.
\<close>

datatype entity =
    DxfLine point point string
  | DxfLWPolyline "point list" bool string
  | DxfSpline "point list" nat string
  | DxfCircle point real string
  | DxfEllipse point point real string

record stats =
  st_lines :: nat
  st_curves :: nat
  st_arcs :: nat
  st_circles :: nat
  st_ellipses :: nat
  st_polylines :: nat
  st_splines :: nat

definition stats0 :: stats where
  "stats0 = \<lparr>st_lines = 0, st_curves = 0, st_arcs = 0, st_circles = 0, st_ellipses = 0,
     st_polylines = 0, st_splines = 0\<rparr>"

definition add_line :: "entity list \<Rightarrow> point \<Rightarrow> point \<Rightarrow> string \<Rightarrow> real option \<Rightarrow> entity list" where
  "add_line msp start end' layer height =
     msp @ [DxfLine (flip_y start height) (flip_y end' height) layer]"

definition add_polyline ::
  "entity list \<Rightarrow> point list \<Rightarrow> string \<Rightarrow> real option \<Rightarrow> bool \<Rightarrow> entity list" where
  "add_polyline msp points layer height closed' =
     (if length points < 2 then msp
      else msp @ [DxfLWPolyline (flip_y_list points height) closed' layer])"

definition add_circle :: "entity list \<Rightarrow> point \<Rightarrow> real \<Rightarrow> string \<Rightarrow> real option \<Rightarrow> entity list" where
  "add_circle msp center radius layer height =
     (if radius \<le> 0 then msp
      else msp @ [DxfCircle (flip_y center height) radius layer])"

definition add_ellipse ::
  "entity list \<Rightarrow> point \<Rightarrow> real \<Rightarrow> real \<Rightarrow> string \<Rightarrow> real option \<Rightarrow> entity list" where
  "add_ellipse msp center rx ry layer height =
     (if rx \<le> 0 \<or> ry \<le> 0 then msp
      else
        let center' = flip_y center height;
            (major_axis, ratio) =
              (if rx \<ge> ry then ((rx, 0), ry / rx) else ((0, ry), rx / ry))
        in msp @ [DxfEllipse center' major_axis ratio layer])"

section \<open>svg_to_dxf.py: the walk over one path\<close>

text \<open>\<open>d.get(k, (0, 0))\<close> and \<open>d.get(k, 0)\<close>.\<close>

definition get_pt :: "point option \<Rightarrow> point" where
  "get_pt v = (case v of None \<Rightarrow> (0, 0) | Some p \<Rightarrow> p)"

definition get_num :: "real option \<Rightarrow> real" where
  "get_num v = (case v of None \<Rightarrow> 0 | Some r \<Rightarrow> r)"

text \<open>
  The variables of the loop over the segments of one path: \<open>current_point\<close> and
  \<open>polyline_points\<close> are reset for every path, the modelspace and the statistics are
  shared by the whole conversion.
\<close>

record walk =
  current_point :: "point option"
  polyline_points :: "point list"
  msp :: "entity list"
  stats :: stats

definition process_segment :: "string \<Rightarrow> real option \<Rightarrow> walk \<Rightarrow> segment \<Rightarrow> error + walk" where
  "process_segment layer svg_height w seg =
     (let op = operation seg; d = data seg in
      if op = ''m'' then
        let w1 = (if length (polyline_points w) > 1
                  then w\<lparr>msp := add_polyline (msp w) (polyline_points w) layer svg_height False,
                         stats := (stats w)\<lparr>st_polylines := st_polylines (stats w) + 1\<rparr>,
                         polyline_points := []\<rparr>
                  else w);
            end_point = get_pt (d_end d)
        in Inr (w1\<lparr>current_point := Some end_point,
                   polyline_points := polyline_points w1 @ [end_point]\<rparr>)
      else if op = ''l'' then
        let start = get_pt (d_start d);
            end' = get_pt (d_end d);
            pts = (if polyline_points w = [] then [start] else polyline_points w)
        in Inr (w\<lparr>polyline_points := pts @ [end'],
                  current_point := Some end',
                  stats := (stats w)\<lparr>st_lines := st_lines (stats w) + 1\<rparr>\<rparr>)
      else if op = ''c'' then
        let start = flip_y (get_pt (d_start d)) svg_height;
            control1 = flip_y (get_pt (d_control1 d)) svg_height;
            control2 = flip_y (get_pt (d_control2 d)) svg_height;
            end' = flip_y (get_pt (d_end d)) svg_height
        in (case approximate_cubic_bezier start control1 control2 end' of
              Inl e \<Rightarrow> Inl e
            | Inr points \<Rightarrow>
                Inr (w\<lparr>msp := msp w @ [DxfSpline points 3 layer],
                       stats := (stats w)\<lparr>st_splines := st_splines (stats w) + 1\<rparr>,
                       current_point := Some end'\<rparr>))
      else if op = ''q'' then
        let start = flip_y (get_pt (d_start d)) svg_height;
            control = flip_y (get_pt (d_control d)) svg_height;
            end' = flip_y (get_pt (d_end d)) svg_height
        in (case approximate_quadratic_bezier start control end' of
              Inl e \<Rightarrow> Inl e
            | Inr points \<Rightarrow>
                Inr (w\<lparr>msp := add_polyline (msp w) points layer None False,
                       stats := (stats w)\<lparr>st_polylines := st_polylines (stats w) + 1\<rparr>,
                       current_point := Some end'\<rparr>))
      else if op = ''a'' then
        let start = get_pt (d_start d);
            end' = get_pt (d_end d);
            points = [start, end']
        in Inr (w\<lparr>msp := add_polyline (msp w) points layer svg_height False,
                  stats := (stats w)\<lparr>st_arcs := st_arcs (stats w) + 1\<rparr>,
                  current_point := Some end'\<rparr>)
      else if op = ''z'' then
        (if length (polyline_points w) > 1
         then Inr (w\<lparr>msp := add_polyline (msp w) (polyline_points w) layer svg_height True,
                     stats := (stats w)\<lparr>st_polylines := st_polylines (stats w) + 1\<rparr>,
                     polyline_points := []\<rparr>)
         else Inr w)
      else Inr w)"

fun process_segments :: "string \<Rightarrow> real option \<Rightarrow> walk \<Rightarrow> segment list \<Rightarrow> error + walk" where
  "process_segments layer svg_height w [] = Inr w"
| "process_segments layer svg_height w (seg # segs) =
     (case process_segment layer svg_height w seg of
        Inl e \<Rightarrow> Inl e
      | Inr w' \<Rightarrow> process_segments layer svg_height w' segs)"

text \<open>
  One iteration of the loop over \<open>paths\<close>: a path without segments is skipped; otherwise
  the segments are walked from a fresh \<open>current_point\<close> and an empty
  \<open>polyline_points\<close>, and what is left of the polyline is added at the end.
\<close>

definition process_path ::
  "bool \<Rightarrow> real option \<Rightarrow> entity list \<times> stats \<Rightarrow> path \<Rightarrow> error + entity list \<times> stats" where
  "process_path layer_by_type svg_height ms p =
     (if segments p = [] then Inr ms
      else
        let layer = (if layer_by_type then ''PATHS'' else ''0'') in
        case process_segments layer svg_height
               \<lparr>current_point = None, polyline_points = [], msp = fst ms, stats = snd ms\<rparr>
               (segments p) of
          Inl e \<Rightarrow> Inl e
        | Inr w \<Rightarrow>
            (if length (polyline_points w) > 1
             then Inr (add_polyline (msp w) (polyline_points w) layer svg_height False,
                       (stats w)\<lparr>st_polylines := st_polylines (stats w) + 1\<rparr>)
             else Inr (msp w, stats w)))"

fun process_paths ::
  "bool \<Rightarrow> real option \<Rightarrow> entity list \<times> stats \<Rightarrow> path list \<Rightarrow> error + entity list \<times> stats" where
  "process_paths layer_by_type svg_height ms [] = Inr ms"
| "process_paths layer_by_type svg_height ms (p # ps) =
     (case process_path layer_by_type svg_height ms p of
        Inl e \<Rightarrow> Inl e
      | Inr ms' \<Rightarrow> process_paths layer_by_type svg_height ms' ps)"

section \<open>Python strings\<close>

text \<open>
  A string is a list of characters, each read as the code point of the same number (below
  256). \<open>isspace\<close> and \<open>isdigit\<close> are Python's \<open>str.isspace\<close> and \<open>str.isdigit\<close> on
  these code points: the white space characters are 9 to 13, 28 to 32, 133 and 160; the
  digits are \<open>0\<close> to \<open>9\<close> and the superscripts 178, 179 and 185.
\<close>

definition isspace :: "char \<Rightarrow> bool" where
  "isspace c = ((of_char c :: nat) \<in> set [9, 10, 11, 12, 13, 28, 29, 30, 31, 32, 133, 160])"

definition is_decimal :: "char \<Rightarrow> bool" where
  "is_decimal c = (48 \<le> (of_char c :: nat) \<and> (of_char c :: nat) \<le> 57)"

definition isdigit :: "char \<Rightarrow> bool" where
  "isdigit c = (is_decimal c \<or> (of_char c :: nat) \<in> set [178, 179, 185])"

text \<open>\<open>s.split()\<close>: the maximal runs of characters that are not white space.\<close>

fun split_from :: "string \<Rightarrow> string \<Rightarrow> string list" where
  "split_from cur [] = (if cur = [] then [] else [cur])"
| "split_from cur (c # cs) =
     (if isspace c then (if cur = [] then split_from [] cs else cur # split_from [] cs)
      else split_from (cur @ [c]) cs)"

definition py_split :: "string \<Rightarrow> string list" where
  "py_split s = split_from [] s"

text \<open>
  The white space that \<open>float\<close> strips from both ends of its argument: of the white
  space above, the characters 28 to 31 are not stripped.
\<close>

definition float_space :: "char \<Rightarrow> bool" where
  "float_space c = ((of_char c :: nat) \<in> set [9, 10, 11, 12, 13, 32, 133, 160])"

definition float_strip :: "string \<Rightarrow> string" where
  "float_strip s = rev (dropWhile float_space (rev (dropWhile float_space s)))"

text \<open>\<open>s.replace(',', ' ')\<close>.\<close>

definition replace_commas :: "string \<Rightarrow> string" where
  "replace_commas s = map (\<lambda>c. if c = CHR '','' then CHR '' '' else c) s"

subsection \<open>The builtin \<open>float\<close> on a string\<close>

text \<open>
  \<open>float(s)\<close> strips white space and reads an optional sign, a decimal number with at
  least one digit before or after an optional point, and an optional exponent; digits may
  be grouped by single underscores. Anything else raises \<open>ValueError\<close>, which is
  \<open>None\<close> here. The value is the exact decimal. The literals \<open>inf\<close>, \<open>infinity\<close>
  and \<open>nan\<close> (in any case, with an optional sign), which Python reads as floats that
  are no real numbers, are \<open>None\<close> as well: the model is about finite coordinates, and
  the statements below that conclude a failed conversion exclude these literals by
  \<open>non_finite_literal\<close>.
\<close>

fun digitpart :: "string \<Rightarrow> string \<times> string" where
  "digitpart [] = ([], [])"
| "digitpart [c] = (if is_decimal c then ([c], []) else ([], [c]))"
| "digitpart (c # u # cs) =
     (if is_decimal c then
        (case cs of
           c2 # r \<Rightarrow>
             if u = CHR ''_'' \<and> is_decimal c2
             then (case digitpart cs of (ds, rest) \<Rightarrow> (c # ds, rest))
             else (case digitpart (u # cs) of (ds, rest) \<Rightarrow> (c # ds, rest))
         | [] \<Rightarrow> (case digitpart (u # cs) of (ds, rest) \<Rightarrow> (c # ds, rest)))
      else ([], c # u # cs))"

definition digits_val :: "string \<Rightarrow> nat" where
  "digits_val ds = foldl (\<lambda>a c. 10 * a + (of_char c - 48)) 0 ds"

definition read_sign :: "string \<Rightarrow> bool \<times> string" where
  "read_sign s =
     (case s of
        [] \<Rightarrow> (False, [])
      | c # r \<Rightarrow> if c = CHR ''-'' then (True, r)
                 else if c = CHR ''+'' then (False, r)
                 else (False, s))"

definition read_exponent :: "string \<Rightarrow> int option" where
  "read_exponent s =
     (case s of
        [] \<Rightarrow> Some 0
      | c # r \<Rightarrow>
          if c = CHR ''e'' \<or> c = CHR ''E'' then
            (case read_sign r of (neg, r1) \<Rightarrow>
               (case digitpart r1 of (ds, rest) \<Rightarrow>
                  if ds \<noteq> [] \<and> rest = []
                  then Some (if neg then - int (digits_val ds) else int (digits_val ds))
                  else None))
          else None)"

definition to_lower :: "char \<Rightarrow> char" where
  "to_lower c =
     (if 65 \<le> (of_char c :: nat) \<and> (of_char c :: nat) \<le> 90
      then char_of ((of_char c :: nat) + 32) else c)"

definition non_finite_literal :: "string \<Rightarrow> bool" where
  "non_finite_literal s =
     (map to_lower (snd (read_sign (float_strip s))) \<in> set [''inf'', ''infinity'', ''nan''])"

definition py_float :: "string \<Rightarrow> real option" where
  "py_float s =
     (case read_sign (float_strip s) of (neg, s1) \<Rightarrow>
      case digitpart s1 of (ip, s2) \<Rightarrow>
      case (case s2 of
              [] \<Rightarrow> ([], [])
            | c # r \<Rightarrow> if c = CHR ''.'' then digitpart r else ([], s2)) of (fp, s3) \<Rightarrow>
        if ip = [] \<and> fp = [] then None
        else
          (case read_exponent s3 of
             None \<Rightarrow> None
           | Some e \<Rightarrow>
               let m = real (digits_val ip) + real (digits_val fp) / 10 ^ length fp;
                   v = (if e \<ge> 0 then m * 10 ^ nat e else m / 10 ^ nat (- e))
               in Some (if neg then - v else v)))"

section \<open>svg_to_dxf.py: the canvas height\<close>

text \<open>
  \<open>get_svg_height(vector_data)\<close>. Both \<open>try\<close> blocks catch every exception and go on.
  The first component of the result is what the function prints: the warning, when
  neither source gives a height.
\<close>

definition height_warning :: string where
  "height_warning =
     ''  Warning: Could not determine SVG height from metadata, calculating from bounds...''"

definition get_svg_height :: "vector_data \<Rightarrow> string list \<times> real option" where
  "get_svg_height vd =
     (let height_str = (case md_height (metadata vd) of None \<Rightarrow> ''not specified'' | Some s \<Rightarrow> s);
          viewBox_str = (case md_viewBox (metadata vd) of None \<Rightarrow> ''not specified'' | Some s \<Rightarrow> s);
          from_height =
            (if height_str \<noteq> ''not specified''
             then py_float (filter (\<lambda>c. isdigit c \<or> c = CHR ''.'') height_str)
             else None)
      in case from_height of
           Some height \<Rightarrow> ([], Some height)
         | None \<Rightarrow>
             let from_viewBox =
                   (if viewBox_str \<noteq> ''not specified''
                    then (let parts = py_split viewBox_str
                          in if length parts = 4 then py_float (parts ! 3) else None)
                    else None)
             in (case from_viewBox of
                   Some height \<Rightarrow> ([], Some height)
                 | None \<Rightarrow> ([height_warning], None)))"

section \<open>svg_to_dxf.py: the whole conversion\<close>

definition process_shape ::
  "bool \<Rightarrow> real option \<Rightarrow> entity list \<times> stats \<Rightarrow> shape \<Rightarrow> entity list \<times> stats" where
  "process_shape layer_by_type svg_height ms sh =
     (let shape_type = sh_type sh;
          layer = (if layer_by_type then ''SHAPES'' else ''0'');
          m = fst ms; st = snd ms in
      if shape_type = ''line'' then
        (add_line m (get_pt (sh_start sh)) (get_pt (sh_end sh)) layer svg_height,
         st\<lparr>st_lines := st_lines st + 1\<rparr>)
      else if shape_type = ''rectangle'' then
        (let corners = (case sh_corners sh of None \<Rightarrow> [] | Some cs \<Rightarrow> cs) in
         if length corners = 4
         then (add_polyline m corners layer svg_height True,
               st\<lparr>st_polylines := st_polylines st + 1\<rparr>)
         else ms)
      else if shape_type = ''circle'' then
        (add_circle m (get_pt (sh_center sh)) (get_num (sh_radius sh)) layer svg_height,
         st\<lparr>st_circles := st_circles st + 1\<rparr>)
      else if shape_type = ''ellipse'' then
        (add_ellipse m (get_pt (sh_center sh)) (get_num (sh_radius_x sh))
           (get_num (sh_radius_y sh)) layer svg_height,
         st\<lparr>st_ellipses := st_ellipses st + 1\<rparr>)
      else if shape_type = ''polyline'' \<or> shape_type = ''polygon'' then
        (let points = (case sh_points sh of None \<Rightarrow> [] | Some ps \<Rightarrow> ps);
             closed' = (case sh_closed sh of None \<Rightarrow> False | Some b \<Rightarrow> b) in
         if points \<noteq> []
         then (add_polyline m points layer svg_height closed',
               st\<lparr>st_polylines := st_polylines st + 1\<rparr>)
         else ms)
      else ms)"

definition process_line :: "bool \<Rightarrow> real option \<Rightarrow> entity list \<Rightarrow> cline \<Rightarrow> entity list" where
  "process_line layer_by_type svg_height m line =
     add_line m (get_pt (l_start line)) (get_pt (l_end line))
       (if layer_by_type then ''LINES'' else ''0'') svg_height"

text \<open>
  A curve entry is drawn when its type is \<open>circle\<close> or \<open>ellipse\<close> and its data has the
  key \<open>center\<close>; the data of a path segment has no such key.
\<close>

definition process_curve ::
  "bool \<Rightarrow> real option \<Rightarrow> entity list \<times> stats \<Rightarrow> curve \<Rightarrow> entity list \<times> stats" where
  "process_curve layer_by_type svg_height ms cv =
     (let curve_type = c_type cv;
          layer = (if layer_by_type then ''CURVES'' else ''0'');
          m = fst ms; st = snd ms in
      case c_data cv of
        SegData d \<Rightarrow> ms
      | ShapeData curve_data \<Rightarrow>
          if curve_type = ''circle'' \<and> sh_center curve_data \<noteq> None then
            (add_circle m (get_pt (sh_center curve_data)) (get_num (sh_radius curve_data))
               layer svg_height,
             st\<lparr>st_circles := st_circles st + 1\<rparr>)
          else if curve_type = ''ellipse'' \<and> sh_center curve_data \<noteq> None then
            (add_ellipse m (get_pt (sh_center curve_data)) (get_num (sh_radius_x curve_data))
               (get_num (sh_radius_y curve_data)) layer svg_height,
             st\<lparr>st_ellipses := st_ellipses st + 1\<rparr>)
          else ms)"

text \<open>
  \<open>create_dxf_from_vectors(vector_data, output_path, layer_by_type)\<close>: the result is
  the warnings of the height resolution, the modelspace that is saved, and the statistics
  that are returned. The progress messages are not modelled.
\<close>

definition create_dxf_from_vectors ::
  "vector_data \<Rightarrow> bool \<Rightarrow> error + string list \<times> entity list \<times> stats" where
  "create_dxf_from_vectors vd layer_by_type =
     (case get_svg_height vd of (warnings, svg_height) \<Rightarrow>
      case process_paths layer_by_type svg_height ([], stats0) (paths vd) of
        Inl e \<Rightarrow> Inl e
      | Inr ms1 \<Rightarrow>
          let ms2 = foldl (process_shape layer_by_type svg_height) ms1 (shapes vd);
              m3 = foldl (process_line layer_by_type svg_height) (fst ms2) (lines vd);
              ms4 = foldl (process_curve layer_by_type svg_height) (m3, snd ms2) (curves vd)
          in Inr (warnings, fst ms4, snd ms4))"

section \<open>svg_vector_extractor.py: path segments\<close>




section \<open>svg_vector_extractor.py: Euclidean length\<close>

text \<open>
  \<open>np.sqrt((end[0]-start[0])**2 + (end[1]-start[1])**2)\<close> on Python floats. The
  value is the exact one. \<open>d ** 2\<close> raises \<open>OverflowError\<close> when \<open>d\<close> is finite and
  its square is not; the sum and the square root never raise. \<open>d\<close> is the rounded
  difference of two doubles: it is infinite when the exact difference reaches
  \<open>2\<^sup>1\<^sup>0\<^sup>2\<^sup>4 - 2\<^sup>9\<^sup>7\<^sup>0\<close> (and the square of an infinity is an infinity, no error); its
  square is infinite when \<open>|d| \<ge> 2\<^sup>5\<^sup>1\<^sup>2\<close>, which the rounded difference is when the
  exact one reaches \<open>2\<^sup>5\<^sup>1\<^sup>2 - 2\<^sup>4\<^sup>5\<^sup>8\<close>.
\<close>

definition square_raises :: "real \<Rightarrow> bool" where
  "square_raises d = (2 ^ 512 - 2 ^ 458 \<le> \<bar>d\<bar> \<and> \<bar>d\<bar> < 2 ^ 1024 - 2 ^ 970)"

definition edge_length :: "point \<Rightarrow> point \<Rightarrow> real" where
  "edge_length start end' = sqrt ((fst end' - fst start) ^ 2 + (snd end' - snd start) ^ 2)"

definition edge_raises :: "point \<Rightarrow> point \<Rightarrow> bool" where
  "edge_raises start end' =
     (square_raises (fst end' - fst start) \<or> square_raises (snd end' - snd start))"

definition checked_edge_length :: "point \<Rightarrow> point \<Rightarrow> error + real" where
  "checked_edge_length start end' =
     (if edge_raises start end' then Inl OverflowError else Inr (edge_length start end'))"

section \<open>svg_vector_extractor.py: shapes\<close>

text \<open>An XML element: its tag and its attributes, all strings.\<close>

record elem =
  tag :: string
  attrib :: "string \<rightharpoonup> string"

text \<open>\<open>elem.tag.split('}')[-1] if '}' in elem.tag else elem.tag\<close>.\<close>

definition local_tag :: "string \<Rightarrow> string" where
  "local_tag t =
     (if CHR ''}'' \<in> set t then rev (takeWhile (\<lambda>c. c \<noteq> CHR ''}'') (rev t)) else t)"

text \<open>\<open>float(elem.get(k, 0))\<close>: a missing attribute is 0, a present one is parsed.\<close>

definition float_attr :: "elem \<Rightarrow> string \<Rightarrow> error + real" where
  "float_attr e k =
     (case attrib e k of
        None \<Rightarrow> Inr 0
      | Some v \<Rightarrow> (case py_float v of None \<Rightarrow> Inl ValueError | Some r \<Rightarrow> Inr r))"

definition bind_err :: "error + 'a \<Rightarrow> ('a \<Rightarrow> error + 'b) \<Rightarrow> error + 'b" where
  "bind_err m f = (case m of Inl e \<Rightarrow> Inl e | Inr v \<Rightarrow> f v)"

definition get_str :: "elem \<Rightarrow> string \<Rightarrow> string \<Rightarrow> string" where
  "get_str e k dflt = (case attrib e k of None \<Rightarrow> dflt | Some v \<Rightarrow> v)"

text \<open>
  The loop \<open>for i in range(0, len(coords)-1, 2)\<close> over the coordinate tokens: the indices
  are the even numbers below \<open>len(coords) - 1\<close>, and each step converts the tokens at
  \<open>i\<close> and \<open>i + 1\<close>, raising \<open>ValueError\<close> at the first one that is no number.
\<close>

definition pair_indices :: "string list \<Rightarrow> nat list" where
  "pair_indices coords = filter even [0..<length coords - 1]"

fun collect_points :: "string list \<Rightarrow> nat list \<Rightarrow> error + point list" where
  "collect_points coords [] = Inr []"
| "collect_points coords (i # is) =
     (case py_float (coords ! i) of
        None \<Rightarrow> Inl ValueError
      | Some x \<Rightarrow>
          (case py_float (coords ! (i + 1)) of
             None \<Rightarrow> Inl ValueError
           | Some y \<Rightarrow>
               (case collect_points coords is of
                  Inl e \<Rightarrow> Inl e
                | Inr ps \<Rightarrow> Inr ((x, y) # ps))))"

text \<open>\<open>coords = points_str.replace(',', ' ').split()\<close>.\<close>

definition point_tokens :: "string \<Rightarrow> string list" where
  "point_tokens points_str = py_split (replace_commas points_str)"

definition parse_points :: "string \<Rightarrow> error + point list" where
  "parse_points points_str =
     (if points_str \<noteq> []
      then (let coords = point_tokens points_str
            in collect_points coords (pair_indices coords))
      else Inr [])"

text \<open>
  The body of the loop of \<open>extract_shape_elements\<close> for one element: the shape it
  appends, \<open>None\<close> for a tag that is no shape, or the error it raises.
\<close>

definition extract_shape :: "elem \<Rightarrow> error + shape option" where
  "extract_shape e =
     (let t = local_tag (tag e) in
      if t = ''rect'' then
        bind_err (float_attr e ''x'') (\<lambda>x.
        bind_err (float_attr e ''y'') (\<lambda>y.
        bind_err (float_attr e ''width'') (\<lambda>width.
        bind_err (float_attr e ''height'') (\<lambda>height.
          Inr (Some (no_shape\<lparr>sh_type := ''rectangle'',
                 sh_x := Some x, sh_y := Some y,
                 sh_width := Some width, sh_height := Some height,
                 sh_corners := Some [(x, y), (x + width, y), (x + width, y + height),
                                     (x, y + height)],
                 sh_fill := Some (get_str e ''fill'' ''none''),
                 sh_stroke := Some (get_str e ''stroke'' ''none'')\<rparr>))))))
      else if t = ''circle'' then
        bind_err (float_attr e ''cx'') (\<lambda>cx.
        bind_err (float_attr e ''cy'') (\<lambda>cy.
        bind_err (float_attr e ''r'') (\<lambda>r.
          Inr (Some (no_shape\<lparr>sh_type := ''circle'',
                 sh_center := Some (cx, cy), sh_radius := Some r,
                 sh_fill := Some (get_str e ''fill'' ''none''),
                 sh_stroke := Some (get_str e ''stroke'' ''none'')\<rparr>)))))
      else if t = ''ellipse'' then
        bind_err (float_attr e ''cx'') (\<lambda>cx.
        bind_err (float_attr e ''cy'') (\<lambda>cy.
        bind_err (float_attr e ''rx'') (\<lambda>rx.
        bind_err (float_attr e ''ry'') (\<lambda>ry.
          Inr (Some (no_shape\<lparr>sh_type := ''ellipse'',
                 sh_center := Some (cx, cy), sh_radius_x := Some rx, sh_radius_y := Some ry,
                 sh_fill := Some (get_str e ''fill'' ''none''),
                 sh_stroke := Some (get_str e ''stroke'' ''none'')\<rparr>))))))
      else if t = ''line'' then
        bind_err (float_attr e ''x1'') (\<lambda>x1.
        bind_err (float_attr e ''y1'') (\<lambda>y1.
        bind_err (float_attr e ''x2'') (\<lambda>x2.
        bind_err (float_attr e ''y2'') (\<lambda>y2.
        bind_err (checked_edge_length (x1, y1) (x2, y2)) (\<lambda>len.
          Inr (Some (no_shape\<lparr>sh_type := ''line'',
                 sh_start := Some (x1, y1), sh_end := Some (x2, y2),
                 sh_length := Some len,
                 sh_stroke := Some (get_str e ''stroke'' ''none'')\<rparr>)))))))
      else if t = ''polyline'' \<or> t = ''polygon'' then
        bind_err (parse_points (get_str e ''points'' [])) (\<lambda>points.
          Inr (Some (no_shape\<lparr>sh_type := t,
                 sh_points := Some points, sh_num_points := Some (length points),
                 sh_closed := Some (t = ''polygon''),
                 sh_fill := Some (get_str e ''fill'' ''none''),
                 sh_stroke := Some (get_str e ''stroke'' ''none'')\<rparr>)))
      else Inr None)"

text \<open>\<open>extract_shape_elements(root)\<close> over the elements of \<open>root.iter()\<close>, in order.\<close>

fun extract_shape_elements :: "elem list \<Rightarrow> error + shape list" where
  "extract_shape_elements [] = Inr []"
| "extract_shape_elements (e # es) =
     (case extract_shape e of
        Inl err \<Rightarrow> Inl err
      | Inr so \<Rightarrow>
          (case extract_shape_elements es of
             Inl err \<Rightarrow> Inl err
           | Inr shs \<Rightarrow> Inr ((case so of None \<Rightarrow> [] | Some sh \<Rightarrow> [sh]) @ shs)))"

section \<open>svg_vector_extractor.py: categorization\<close>

text \<open>\<open>d[k]\<close>: a missing key raises \<open>KeyError\<close>.\<close>

definition item :: "'a option \<Rightarrow> error + 'a" where
  "item v = (case v of None \<Rightarrow> Inl KeyError | Some a \<Rightarrow> Inr a)"

text \<open>\<open>xs[i]\<close> for an index that is not negative.\<close>

definition at_index :: "'a list \<Rightarrow> nat \<Rightarrow> error + 'a" where
  "at_index xs i = (if i < length xs then Inr (xs ! i) else Inl IndexError)"

text \<open>The lines and curves one segment of a path contributes.\<close>

definition categorize_segment :: "segment \<Rightarrow> error + cline list \<times> curve list" where
  "categorize_segment seg =
     (if operation seg = ''l'' then
        bind_err (item (d_start (data seg))) (\<lambda>start.
        bind_err (item (d_end (data seg))) (\<lambda>end'.
        bind_err (item (d_length (data seg))) (\<lambda>len.
          Inr ([\<lparr>l_start = Some start, l_end = Some end', l_length = Some len,
                  l_source = ''path''\<rparr>], []))))
      else if operation seg \<in> set [''c'', ''q'', ''a''] then
        Inr ([], [\<lparr>c_type = seg_type seg, c_operation = Some (operation seg),
                    c_data = SegData (data seg), c_source = ''path''\<rparr>])
      else Inr ([], []))"

text \<open>The loop \<open>for i in range(4)\<close> over the corners of a rectangle.\<close>

fun rectangle_edges :: "point list \<Rightarrow> nat list \<Rightarrow> error + cline list" where
  "rectangle_edges corners [] = Inr []"
| "rectangle_edges corners (i # is) =
     bind_err (at_index corners i) (\<lambda>start.
     bind_err (at_index corners ((i + 1) mod 4)) (\<lambda>end'.
     bind_err (checked_edge_length start end') (\<lambda>len.
     bind_err (rectangle_edges corners is) (\<lambda>rest.
       Inr (\<lparr>l_start = Some start, l_end = Some end',
              l_length = Some len, l_source = ''rectangle''\<rparr> # rest)))))"

text \<open>
  The loop \<open>for i in range(len(points) - 1)\<close> over the points of a polyline or polygon;
  every index it reads is in range.
\<close>

fun polyline_edges :: "string \<Rightarrow> point list \<Rightarrow> nat list \<Rightarrow> error + cline list" where
  "polyline_edges src points [] = Inr []"
| "polyline_edges src points (i # is) =
     (let start = points ! i; end' = points ! (i + 1) in
      bind_err (checked_edge_length start end') (\<lambda>len.
      bind_err (polyline_edges src points is) (\<lambda>rest.
        Inr (\<lparr>l_start = Some start, l_end = Some end',
               l_length = Some len, l_source = src\<rparr> # rest))))"

text \<open>The closing line of a polygon: \<open>if shape['closed'] and len(points) > 2\<close>.\<close>

definition closing_edge :: "string \<Rightarrow> point list \<Rightarrow> bool \<Rightarrow> error + cline list" where
  "closing_edge src points closed' =
     (if closed' \<and> length points > 2
      then (let start = last points; end' = hd points in
            bind_err (checked_edge_length start end') (\<lambda>len.
              Inr [\<lparr>l_start = Some start, l_end = Some end',
                     l_length = Some len, l_source = src\<rparr>]))
      else Inr [])"

text \<open>
  The line from point \<open>i\<close> to point \<open>i + 1\<close> with the exact length: what one step of
  the loop appends when it does not raise.
\<close>

definition edge_of :: "string \<Rightarrow> point list \<Rightarrow> nat \<Rightarrow> cline" where
  "edge_of src pts i = \<lparr>l_start = Some (pts ! i), l_end = Some (pts ! (i + 1)),
     l_length = Some (edge_length (pts ! i) (pts ! (i + 1))), l_source = src\<rparr>"

text \<open>The lines and curves one shape contributes.\<close>

definition categorize_shape :: "shape \<Rightarrow> error + cline list \<times> curve list" where
  "categorize_shape sh =
     (if sh_type sh = ''line'' then
        bind_err (item (sh_start sh)) (\<lambda>start.
        bind_err (item (sh_end sh)) (\<lambda>end'.
        bind_err (item (sh_length sh)) (\<lambda>len.
          Inr ([\<lparr>l_start = Some start, l_end = Some end', l_length = Some len,
                  l_source = ''shape''\<rparr>], []))))
      else if sh_type sh = ''rectangle'' then
        bind_err (item (sh_corners sh)) (\<lambda>corners.
        bind_err (rectangle_edges corners [0..<4]) (\<lambda>edges.
          Inr (edges, [])))
      else if sh_type sh \<in> set [''circle'', ''ellipse''] then
        Inr ([], [\<lparr>c_type = sh_type sh, c_operation = None, c_data = ShapeData sh,
                    c_source = ''shape''\<rparr>])
      else if sh_type sh \<in> set [''polyline'', ''polygon''] then
        bind_err (item (sh_points sh)) (\<lambda>points.
        bind_err (polyline_edges (sh_type sh) points [0..<length points - 1]) (\<lambda>edges.
        bind_err (item (sh_closed sh)) (\<lambda>closed'.
        bind_err (closing_edge (sh_type sh) points closed') (\<lambda>closing.
          Inr (edges @ closing, [])))))
      else Inr ([], []))"

text \<open>
  \<open>categorize_vectors(paths, shapes)\<close>: the contributions of all segments of all paths,
  then of all shapes, each list in the order of the input.
\<close>

fun categorize_all :: "('a \<Rightarrow> error + cline list \<times> curve list) \<Rightarrow> 'a list
    \<Rightarrow> error + cline list \<times> curve list" where
  "categorize_all f [] = Inr ([], [])"
| "categorize_all f (x # xs) =
     bind_err (f x) (\<lambda>r.
     bind_err (categorize_all f xs) (\<lambda>rs.
       Inr (fst r @ fst rs, snd r @ snd rs)))"

definition categorize_vectors :: "path list \<Rightarrow> shape list \<Rightarrow> error + cline list \<times> curve list" where
  "categorize_vectors ps shs =
     bind_err (categorize_all categorize_segment (concat (map segments ps))) (\<lambda>r1.
     bind_err (categorize_all categorize_shape shs) (\<lambda>r2.
       Inr (fst r1 @ fst r2, snd r1 @ snd r2)))"

section \<open>Concrete inputs\<close>

text \<open>
  The path \<open>M0,0 L10,0 L10,10 Z\<close> as the extractor writes it, and the document that
  holds this path alone, with the canvas height 20.
\<close>

definition scenario_path :: path where
  "scenario_path =
     \<lparr>path_d = ''M0,0 L10,0 L10,10 Z'', path_fill = ''none'', path_stroke = ''none'',
      path_stroke_width = ''1'',
      segments =
        [\<lparr>seg_type = ''Move'', operation = ''m'',
           data = no_data\<lparr>d_start := Some (0, 0), d_end := Some (0, 0)\<rparr>\<rparr>,
         \<lparr>seg_type = ''Line'', operation = ''l'',
           data = no_data\<lparr>d_start := Some (0, 0), d_end := Some (10, 0),
                           d_length := Some 10\<rparr>\<rparr>,
         \<lparr>seg_type = ''Line'', operation = ''l'',
           data = no_data\<lparr>d_start := Some (10, 0), d_end := Some (10, 10),
                           d_length := Some 10\<rparr>\<rparr>,
         \<lparr>seg_type = ''Close'', operation = ''z'',
           data = no_data\<lparr>d_start := Some (10, 10), d_end := Some (0, 0)\<rparr>\<rparr>]\<rparr>"

definition scenario_document :: vector_data where
  "scenario_document =
     \<lparr>metadata = \<lparr>md_viewBox = None, md_width = None, md_height = Some ''20''\<rparr>,
      paths = [scenario_path], shapes = [], lines = [], curves = []\<rparr>"

text \<open>A walk with one pending point, and one segment of each curve kind.\<close>

definition walk0 :: walk where
  "walk0 = \<lparr>current_point = Some (1, 1), polyline_points = [(1, 1)], msp = [], stats = stats0\<rparr>"

definition cubic_seg :: segment where
  "cubic_seg = \<lparr>seg_type = ''CubicBezier'', operation = ''c'',
     data = no_data\<lparr>d_start := Some (0, 0), d_control1 := Some (0, 10),
                     d_control2 := Some (10, 10), d_end := Some (10, 0)\<rparr>\<rparr>"

definition quadratic_seg :: segment where
  "quadratic_seg = \<lparr>seg_type = ''QuadraticBezier'', operation = ''q'',
     data = no_data\<lparr>d_start := Some (0, 0), d_control := Some (5, 10),
                     d_end := Some (10, 0)\<rparr>\<rparr>"

text \<open>A document with nothing but the two attributes the height is resolved from.\<close>

definition doc_with :: "string option \<Rightarrow> string option \<Rightarrow> vector_data" where
  "doc_with h v = \<lparr>metadata = \<lparr>md_viewBox = v, md_width = None, md_height = h\<rparr>,
     paths = [], shapes = [], lines = [], curves = []\<rparr>"

text \<open>A circle and an ellipse centred at \<open>(5, 5)\<close>.\<close>

definition circle_shape :: "real \<Rightarrow> shape" where
  "circle_shape r = no_shape\<lparr>sh_type := ''circle'', sh_center := Some (5, 5), sh_radius := Some r\<rparr>"

definition ellipse_shape :: "real \<Rightarrow> real \<Rightarrow> shape" where
  "ellipse_shape rx ry = no_shape\<lparr>sh_type := ''ellipse'', sh_center := Some (5, 5),
     sh_radius_x := Some rx, sh_radius_y := Some ry\<rparr>"

text \<open>
  A polygon whose point list holds five numbers, a polyline and a polygon with a token
  that is no number, and an element with no attributes at all.
\<close>

definition odd_polygon :: elem where
  "odd_polygon = \<lparr>tag = ''{http://www.w3.org/2000/svg}polygon'',
     attrib = [''points'' \<mapsto> ''0,0 10,0 5'']\<rparr>"

definition malformed_polyline :: elem where
  "malformed_polyline = \<lparr>tag = ''polyline'', attrib = [''points'' \<mapsto> ''10,abc'']\<rparr>"

definition bad_polygon :: elem where
  "bad_polygon = \<lparr>tag = ''polygon'', attrib = [''points'' \<mapsto> ''1 2 x 4'']\<rparr>"

definition bare :: "string \<Rightarrow> elem" where
  "bare t = \<lparr>tag = t, attrib = Map.empty\<rparr>"

text \<open>
  A triangle as a polygon (closed) and as a polyline (open), and a polygon of two points.
\<close>

definition triangle :: "bool \<Rightarrow> shape" where
  "triangle c = no_shape\<lparr>sh_type := (if c then ''polygon'' else ''polyline''),
     sh_points := Some [(0, 0), (4, 0), (4, 3)], sh_num_points := Some 3,
     sh_closed := Some c\<rparr>"

text \<open>
  A polyline whose second point lies \<open>2\<^sup>6\<^sup>0\<^sup>0\<close>, a double of about \<open>4.1e180\<close>, to
  the right of the first.
\<close>

definition huge_polyline :: shape where
  "huge_polyline = no_shape\<lparr>sh_type := ''polyline'',
     sh_points := Some [(0, 0), (2 ^ 600, 0)], sh_num_points := Some 2,
     sh_closed := Some False\<rparr>"

definition two_point_polygon :: shape where
  "two_point_polygon = no_shape\<lparr>sh_type := ''polygon'',
     sh_points := Some [(0, 0), (4, 0)], sh_num_points := Some 2, sh_closed := Some True\<rparr>"





section \<open>Properties\<close>

subsection \<open>Coordinate flip\<close>

lemma pow2_powr: "pow2 k = 2 powr of_int k"
proof (cases "0 \<le> k")
  case True
  then have "2 powr of_int k = (2::real) powr real (nat k)" by simp
  also have "\<dots> = 2 ^ nat k" by (rule powr_realpow) simp
  finally show ?thesis using True by (simp add: pow2_def)
next
  case False
  then have "2 powr of_int k = (2::real) powr (- real (nat (- k)))" by simp
  also have "\<dots> = 1 / 2 powr real (nat (- k))" by (simp add: powr_minus divide_inverse)
  also have "2 powr real (nat (- k)) = (2::real) ^ nat (- k)" by (rule powr_realpow) simp
  finally show ?thesis using False by (simp add: pow2_def)
qed

lemma quantum_binade:
  assumes "pow2 k \<le> \<bar>x\<bar>" and "\<bar>x\<bar> < pow2 (k + 1)" and "- 1022 \<le> k"
  shows "quantum x = k - 52"
proof -
  have pos: "0 < \<bar>x\<bar>" using assms(1) by (smt (verit) pow2_powr powr_gt_zero)
  have "\<lfloor>log 2 \<bar>x\<bar>\<rfloor> = k"
    using assms(1,2) pos by (subst floor_log_eq_powr_iff) (simp_all add: pow2_powr)
  then show ?thesis using assms(3) by (simp add: quantum_def)
qed

lemma round_double_binade:
  assumes "pow2 k \<le> \<bar>x\<bar>" and "\<bar>x\<bar> < pow2 (k + 1)" and "- 1022 \<le> k"
  shows "round_double x = of_int (round_half_even (x / pow2 (k - 52))) * pow2 (k - 52)"
proof -
  have "x \<noteq> 0" using assms(1) by (smt (verit) pow2_powr powr_gt_zero)
  then show ?thesis
    by (simp add: round_double_def quantum_binade [OF assms])
qed

lemma round_double_20: "round_double 20 = 20"
proof -
  have "round_double 20 = of_int (round_half_even (20 / pow2 (4 - 52))) * pow2 (4 - 52)"
    by (rule round_double_binade) (simp_all add: pow2_def)
  also have "(20::real) / pow2 (4 - 52) = 5629499534213120"
    by (simp add: pow2_def)
  also have "round_half_even 5629499534213120 = 5629499534213120"
    by (simp add: round_half_even_def)
  finally show ?thesis by (simp add: pow2_def)
qed

lemma round_double_15: "round_double 15 = 15"
proof -
  have "round_double 15 = of_int (round_half_even (15 / pow2 (3 - 52))) * pow2 (3 - 52)"
    by (rule round_double_binade) (simp_all add: pow2_def)
  also have "(15::real) / pow2 (3 - 52) = 8444249301319680"
    by (simp add: pow2_def)
  also have "round_half_even 8444249301319680 = 8444249301319680"
    by (simp add: round_half_even_def)
  finally show ?thesis by (simp add: pow2_def)
qed

lemma round_double_5: "round_double 5 = 5"
proof -
  have "round_double 5 = of_int (round_half_even (5 / pow2 (2 - 52))) * pow2 (2 - 52)"
    by (rule round_double_binade) (simp_all add: pow2_def)
  also have "(5::real) / pow2 (2 - 52) = 5629499534213120"
    by (simp add: pow2_def)
  also have "round_half_even 5629499534213120 = 5629499534213120"
    by (simp add: round_half_even_def)
  finally show ?thesis by (simp add: pow2_def)
qed

text \<open>
  The double that the literal \<open>0.1\<close> denotes, and the two subtractions of the flip of
  \<open>y = 0.1\<close> with the height 20.
\<close>

lemma round_double_tenth: "round_double (1 / 10) = 3602879701896397 / 2 ^ 55"
proof -
  have "round_double (1 / 10)
      = of_int (round_half_even ((1 / 10) / pow2 (- 4 - 52))) * pow2 (- 4 - 52)"
    by (rule round_double_binade) (simp_all add: pow2_def)
  also have "(1 / 10 :: real) / pow2 (- 4 - 52) = 72057594037927936 / 10"
    by (simp add: pow2_def)
  also have "round_half_even (72057594037927936 / 10) = 7205759403792794"
    by (simp add: round_half_even_def Let_def)
  finally show ?thesis by (simp add: pow2_def)
qed

lemma tenth_is_double: "is_double (3602879701896397 / 2 ^ 55)"
proof -
  let ?x = "3602879701896397 / 2 ^ 55 :: real"
  have "round_double ?x = of_int (round_half_even (?x / pow2 (- 4 - 52))) * pow2 (- 4 - 52)"
    by (rule round_double_binade) (simp_all add: pow2_def)
  also have "?x / pow2 (- 4 - 52) = 7205759403792794"
    by (simp add: pow2_def)
  also have "round_half_even 7205759403792794 = 7205759403792794"
    by (simp add: round_half_even_def)
  finally have "round_double ?x = ?x" by (simp add: pow2_def)
  then show ?thesis by (simp add: is_double_def)
qed

lemma flip_tenth_once:
  "round_double (20 - 3602879701896397 / 2 ^ 55) = 5601352036542054 / 2 ^ 48"
proof -
  let ?x = "20 - 3602879701896397 / 2 ^ 55 :: real"
  have "round_double ?x = of_int (round_half_even (?x / pow2 (4 - 52))) * pow2 (4 - 52)"
    by (rule round_double_binade) (simp_all add: pow2_def)
  also have "?x / pow2 (4 - 52) = 716973060677382963 / 128"
    by (simp add: pow2_def)
  also have "round_half_even (716973060677382963 / 128) = 5601352036542054"
    by (simp add: round_half_even_def Let_def)
  finally show ?thesis by (simp add: pow2_def)
qed

lemma flip_tenth_twice:
  "round_double (20 - 5601352036542054 / 2 ^ 48) = 28147497671066 / 2 ^ 48"
proof -
  let ?x = "20 - 5601352036542054 / 2 ^ 48 :: real"
  have "round_double ?x = of_int (round_half_even (?x / pow2 (- 4 - 52))) * pow2 (- 4 - 52)"
    by (rule round_double_binade) (simp_all add: pow2_def)
  also have "?x / pow2 (- 4 - 52) = 7205759403792896"
    by (simp add: pow2_def)
  also have "round_half_even 7205759403792896 = 7205759403792896"
    by (simp add: round_half_even_def)
  finally show ?thesis by (simp add: pow2_def)
qed

lemma sub_tenth_once:
  "double_sub 20 (3602879701896397 / 2 ^ 55) = Some (5601352036542054 / 2 ^ 48)"
  unfolding double_sub_def Let_def flip_tenth_once by simp

lemma sub_tenth_twice:
  "double_sub 20 (5601352036542054 / 2 ^ 48) = Some (28147497671066 / 2 ^ 48)"
  unfolding double_sub_def Let_def flip_tenth_twice by simp

text \<open>
  C3, as the specification states it, fails on doubles: for the height \<open>20.0\<close> and the
  point \<open>(0.0, 0.1)\<close> the first flip gives \<open>y = 5601352036542054 / 2\<^sup>4\<^sup>8\<close> (the
  difference is rounded), the second gives \<open>y = 28147497671066 / 2\<^sup>4\<^sup>8\<close>, which is
  \<open>0.10000000000000142\<close> and not the double \<open>0.1\<close>.
\<close>

theorem double_flip_not_involution:
  "is_double 20 \<and> is_double (3602879701896397 / 2 ^ 55)
   \<and> round_double (1 / 10) = 3602879701896397 / 2 ^ 55
   \<and> flip_y_double (0, 3602879701896397 / 2 ^ 55) (Some 20)
       = Some (0, 5601352036542054 / 2 ^ 48)
   \<and> flip_y_double (0, 5601352036542054 / 2 ^ 48) (Some 20)
       = Some (0, 28147497671066 / 2 ^ 48)
   \<and> (0, 28147497671066 / 2 ^ 48) \<noteq> (0 :: real, 3602879701896397 / 2 ^ 55 :: real)"
proof -
  have 1: "is_double 20" by (simp add: is_double_def round_double_20)
  have 2: "flip_y_double (0, 3602879701896397 / 2 ^ 55) (Some 20)
       = Some (0, 5601352036542054 / 2 ^ 48)"
    by (simp only: flip_y_double_def option.case snd_conv fst_conv sub_tenth_once)
  have 3: "flip_y_double (0, 5601352036542054 / 2 ^ 48) (Some 20)
       = Some (0, 28147497671066 / 2 ^ 48)"
    by (simp only: flip_y_double_def option.case snd_conv fst_conv sub_tenth_twice)
  have 4: "(0, 28147497671066 / 2 ^ 48) \<noteq> (0 :: real, 3602879701896397 / 2 ^ 55 :: real)"
    by simp
  from 1 tenth_is_double round_double_tenth 2 3 4 show ?thesis by (intro conjI)
qed

text \<open>
  C3, amended. With an unresolved height the flip is the identity, and applying it
  twice gives the point back. With a known height \<open>H\<close> the flip of the doubles
  \<open>(x, y)\<close> is \<open>(x, H - y)\<close> whenever the difference \<open>H - y\<close> is a double itself, and
  applying the flip twice then gives \<open>(x, y)\<close> back; when the difference is rounded,
  the second flip need not return \<open>y\<close>.
\<close>

theorem double_flip_involution:
  "flip_y_double P None = Some P
   \<and> Option.bind (flip_y_double P None) (\<lambda>Q. flip_y_double Q None) = Some P
   \<and> (is_double y \<and> is_double (h - y) \<longrightarrow>
        flip_y_double (x, y) (Some h) = Some (flip_y (x, y) (Some h))
      \<and> flip_y (x, y) (Some h) = (x, h - y)
      \<and> Option.bind (flip_y_double (x, y) (Some h)) (\<lambda>Q. flip_y_double Q (Some h))
          = Some (x, y))"
proof (intro conjI impI)
  show "flip_y_double P None = Some P" by (simp add: flip_y_double_def)
  then show "Option.bind (flip_y_double P None) (\<lambda>Q. flip_y_double Q None) = Some P"
    by simp
next
  assume d: "is_double y \<and> is_double (h - y)"
  then have 1: "double_sub h y = Some (h - y)"
    by (simp add: double_sub_def is_double_def)
  from d have 2: "double_sub h (h - y) = Some y"
    by (simp add: double_sub_def is_double_def)
  show f: "flip_y_double (x, y) (Some h) = Some (flip_y (x, y) (Some h))"
    using 1 by (simp add: flip_y_double_def flip_y_def)
  show "flip_y (x, y) (Some h) = (x, h - y)" by (simp add: flip_y_def)
  show "Option.bind (flip_y_double (x, y) (Some h)) (\<lambda>Q. flip_y_double Q (Some h))
          = Some (x, y)"
    using 1 2 by (simp add: flip_y_double_def)
qed

theorem double_flip_involution_witness:
  "is_double 5 \<and> is_double (20 - 5)
   \<and> flip_y_double (3, 5) (Some 20) = Some (3, 15)
   \<and> Option.bind (flip_y_double (3, 5) (Some 20)) (\<lambda>Q. flip_y_double Q (Some 20))
       = Some (3, 5)"
proof -
  have d: "is_double 5 \<and> is_double (20 - 5)"
    by (simp add: is_double_def round_double_5 round_double_15)
  from double_flip_involution [of "(3, 5)" 5 20 3] d
  have a: "flip_y_double (3, 5) (Some 20) = Some (flip_y (3, 5) (Some 20))"
    and b: "Option.bind (flip_y_double (3, 5) (Some 20)) (\<lambda>Q. flip_y_double Q (Some 20))
       = Some (3, 5)"
    by blast+
  from a have "flip_y_double (3, 5) (Some 20) = Some (3, 15)" by (simp add: flip_y_def)
  with d b show ?thesis by (intro conjI) simp_all
qed

subsection \<open>Curve flattening\<close>

lemma cubic_point_spec:
  "cubic_point p0 p1 p2 p3 n i = spec_cubic_B p0 p1 p2 p3 (real_of_int i / real_of_int n)"
  by (simp add: cubic_point_def spec_cubic_B_def add_pt_def scale_pt_def Let_def)

lemma quadratic_point_spec:
  "quadratic_point p0 p1 p2 n i = spec_quadratic_B p0 p1 p2 (real_of_int i / real_of_int n)"
  by (simp add: quadratic_point_def spec_quadratic_B_def add_pt_def scale_pt_def Let_def)

lemma cubic_point_first: "cubic_point p0 p1 p2 p3 20 0 = p0"
  by (simp add: cubic_point_def)

lemma cubic_point_last: "cubic_point p0 p1 p2 p3 20 20 = p3"
  by (simp add: cubic_point_def)

lemma quadratic_point_first: "quadratic_point p0 p1 p2 15 0 = p0"
  by (simp add: quadratic_point_def)

lemma quadratic_point_last: "quadratic_point p0 p1 p2 15 15 = p2"
  by (simp add: quadratic_point_def)

lemma upto_0_int: "[0..int n] = map int [0..<Suc n]"
  by (induction n) (simp_all add: upto_rec2)

lemma upto_0_20: "[0..20::int] = map int [0..<21]"
  using upto_0_int [of 20] by simp

lemma upto_0_15: "[0..15::int] = map int [0..<16]"
  using upto_0_int [of 15] by simp

text \<open>
  C1. The cubic flattener returns exactly 21 points, the samples of the cubic formula at
  \<open>t = i/20\<close> for \<open>i = 0..20\<close> in that order, the first being \<open>P0\<close> and the last
  \<open>P3\<close>; the quadratic flattener returns exactly 16 points, the samples of the quadratic
  formula at \<open>t = i/15\<close> for \<open>i = 0..15\<close>, the first being \<open>P0\<close> and the last \<open>P2\<close>.
\<close>

theorem bezier_flatteners_sample:
  "(\<exists>pts. approximate_cubic_bezier P0 P1 P2 P3 = Inr pts
      \<and> length pts = 21
      \<and> pts = map (\<lambda>i. spec_cubic_B P0 P1 P2 P3 (real i / 20)) [0..<21]
      \<and> hd pts = P0 \<and> last pts = P3)
   \<and> (\<exists>qts. approximate_quadratic_bezier Q0 Q1 Q2 = Inr qts
      \<and> length qts = 16
      \<and> qts = map (\<lambda>i. spec_quadratic_B Q0 Q1 Q2 (real i / 15)) [0..<16]
      \<and> hd qts = Q0 \<and> last qts = Q2)"
proof -
  let ?c = "map (cubic_point P0 P1 P2 P3 20) [0..20]"
  let ?q = "map (quadratic_point Q0 Q1 Q2 15) [0..15]"
  have c_run: "approximate_cubic_bezier P0 P1 P2 P3 = Inr ?c"
    by (simp add: approximate_cubic_bezier_def approximate_cubic_bezier_n_def)
  have c_spec: "?c = map (\<lambda>i. spec_cubic_B P0 P1 P2 P3 (real i / 20)) [0..<21]"
    unfolding upto_0_20 by (simp add: cubic_point_spec comp_def)
  have c_len: "length ?c = 21"
    unfolding upto_0_20 by simp
  have c_hd: "hd ?c = P0"
    using cubic_point_first [of P0 P1 P2 P3] by (simp add: upto_rec1)
  have c_last: "last ?c = P3"
    using cubic_point_last [of P0 P1 P2 P3] by (simp add: upto_rec2 last_map)
  have q_run: "approximate_quadratic_bezier Q0 Q1 Q2 = Inr ?q"
    by (simp add: approximate_quadratic_bezier_def approximate_quadratic_bezier_n_def)
  have q_spec: "?q = map (\<lambda>i. spec_quadratic_B Q0 Q1 Q2 (real i / 15)) [0..<16]"
    unfolding upto_0_15 by (simp add: quadratic_point_spec comp_def)
  have q_len: "length ?q = 16"
    unfolding upto_0_15 by simp
  have q_hd: "hd ?q = Q0"
    using quadratic_point_first [of Q0 Q1 Q2] by (simp add: upto_rec1)
  have q_last: "last ?q = Q2"
    using quadratic_point_last [of Q0 Q1 Q2] by (simp add: upto_rec2 last_map)
  from c_run c_spec c_len c_hd c_last q_run q_spec q_len q_hd q_last
  show ?thesis by metis
qed

subsection \<open>The walk over a path\<close>

lemma approximate_cubic_bezier_run:
  "approximate_cubic_bezier p0 p1 p2 p3 = Inr (map (cubic_point p0 p1 p2 p3 20) [0..20])"
  by (simp add: approximate_cubic_bezier_def approximate_cubic_bezier_n_def)

lemma approximate_quadratic_bezier_run:
  "approximate_quadratic_bezier p0 p1 p2 = Inr (map (quadratic_point p0 p1 p2 15) [0..15])"
  by (simp add: approximate_quadratic_bezier_def approximate_quadratic_bezier_n_def)

lemma length_upto_0_20: "length [0..20::int] = 21"
  unfolding upto_0_20 by simp

lemma length_upto_0_15: "length [0..15::int] = 16"
  unfolding upto_0_15 by simp

text \<open>
  C8. A cubic or a quadratic segment leaves the pending polyline as it was. The cubic
  segment adds one spline of degree 3 built from the 21 points of the flattener, the
  quadratic segment adds one open polyline of the 16 points of the flattener, and neither
  adds anything else.
\<close>

theorem curve_segments_leave_polyline:
  "(operation seg = ''c'' \<longrightarrow>
      (\<exists>w' pts. process_segment layer h w seg = Inr w'
         \<and> polyline_points w' = polyline_points w
         \<and> msp w' = msp w @ [DxfSpline pts 3 layer]
         \<and> approximate_cubic_bezier (flip_y (get_pt (d_start (data seg))) h)
              (flip_y (get_pt (d_control1 (data seg))) h)
              (flip_y (get_pt (d_control2 (data seg))) h)
              (flip_y (get_pt (d_end (data seg))) h) = Inr pts
         \<and> length pts = 21))
   \<and> (operation seg = ''q'' \<longrightarrow>
      (\<exists>w' pts. process_segment layer h w seg = Inr w'
         \<and> polyline_points w' = polyline_points w
         \<and> msp w' = msp w @ [DxfLWPolyline pts False layer]
         \<and> approximate_quadratic_bezier (flip_y (get_pt (d_start (data seg))) h)
              (flip_y (get_pt (d_control (data seg))) h)
              (flip_y (get_pt (d_end (data seg))) h) = Inr pts
         \<and> length pts = 16))"
proof (intro conjI impI)
  assume c: "operation seg = ''c''"
  show "\<exists>w' pts. process_segment layer h w seg = Inr w'
         \<and> polyline_points w' = polyline_points w
         \<and> msp w' = msp w @ [DxfSpline pts 3 layer]
         \<and> approximate_cubic_bezier (flip_y (get_pt (d_start (data seg))) h)
              (flip_y (get_pt (d_control1 (data seg))) h)
              (flip_y (get_pt (d_control2 (data seg))) h)
              (flip_y (get_pt (d_end (data seg))) h) = Inr pts
         \<and> length pts = 21"
    using c
    by (simp add: process_segment_def Let_def approximate_cubic_bezier_run length_upto_0_20)
next
  assume q: "operation seg = ''q''"
  show "\<exists>w' pts. process_segment layer h w seg = Inr w'
         \<and> polyline_points w' = polyline_points w
         \<and> msp w' = msp w @ [DxfLWPolyline pts False layer]
         \<and> approximate_quadratic_bezier (flip_y (get_pt (d_start (data seg))) h)
              (flip_y (get_pt (d_control (data seg))) h)
              (flip_y (get_pt (d_end (data seg))) h) = Inr pts
         \<and> length pts = 16"
    using q
    by (simp add: process_segment_def Let_def approximate_quadratic_bezier_run
        length_upto_0_15 add_polyline_def flip_y_list_def)
qed

theorem curve_segments_leave_polyline_witness:
  "(\<exists>w' pts. process_segment ''PATHS'' (Some 10) walk0 cubic_seg = Inr w'
       \<and> polyline_points w' = [(1, 1)] \<and> msp w' = [DxfSpline pts 3 ''PATHS'']
       \<and> length pts = 21)
   \<and> (\<exists>w' pts. process_segment ''PATHS'' (Some 10) walk0 quadratic_seg = Inr w'
       \<and> polyline_points w' = [(1, 1)] \<and> msp w' = [DxfLWPolyline pts False ''PATHS'']
       \<and> length pts = 16)"
proof -
  have c: "operation cubic_seg = ''c''" by (simp add: cubic_seg_def)
  have q: "operation quadratic_seg = ''q''" by (simp add: quadratic_seg_def)
  have w: "polyline_points walk0 = [(1, 1)] \<and> msp walk0 = []" by (simp add: walk0_def)
  from curve_segments_leave_polyline [of cubic_seg "''PATHS''" "Some 10" walk0] c w
  have 1: "\<exists>w' pts. process_segment ''PATHS'' (Some 10) walk0 cubic_seg = Inr w'
       \<and> polyline_points w' = [(1, 1)] \<and> msp w' = [DxfSpline pts 3 ''PATHS'']
       \<and> length pts = 21"
    by auto
  from curve_segments_leave_polyline [of quadratic_seg "''PATHS''" "Some 10" walk0] q w
  have 2: "\<exists>w' pts. process_segment ''PATHS'' (Some 10) walk0 quadratic_seg = Inr w'
       \<and> polyline_points w' = [(1, 1)] \<and> msp w' = [DxfLWPolyline pts False ''PATHS'']
       \<and> length pts = 16"
    by auto
  from 1 2 show ?thesis by simp
qed

lemmas py_float_eval = py_float_def float_strip_def float_space_def isspace_def read_sign_def is_decimal_def
  digits_val_def read_exponent_def isdigit_def

lemma scenario_height: "get_svg_height scenario_document = ([], Some 20)"
  by (simp add: get_svg_height_def scenario_document_def Let_def py_float_eval)

lemma scenario_walk:
  "process_path True (Some 20) ([], stats0) scenario_path =
   Inr ([DxfLWPolyline [(0, 20), (10, 20), (10, 10)] True ''PATHS''],
        stats0\<lparr>st_lines := 2, st_polylines := 1\<rparr>)"
  by (simp add: process_path_def scenario_path_def process_segment_def Let_def no_data_def
      get_pt_def add_polyline_def flip_y_list_def flip_y_def stats0_def)

text \<open>
  C2. For the path Move to \<open>(0,0)\<close>, Line to \<open>(10,0)\<close>, Line to \<open>(10,10)\<close>, Close
  and the canvas height 20, the walk adds exactly one entity, a closed polyline with the
  vertices \<open>(0,20)\<close>, \<open>(10,20)\<close>, \<open>(10,10)\<close> in this order; so does the whole
  conversion of the document that holds this path alone.
\<close>

theorem scenario_closed_polyline:
  "process_path True (Some 20) ([], stats0) scenario_path =
     Inr ([DxfLWPolyline [(0, 20), (10, 20), (10, 10)] True ''PATHS''],
          stats0\<lparr>st_lines := 2, st_polylines := 1\<rparr>)
   \<and> create_dxf_from_vectors scenario_document True =
     Inr ([], [DxfLWPolyline [(0, 20), (10, 20), (10, 10)] True ''PATHS''],
          stats0\<lparr>st_lines := 2, st_polylines := 1\<rparr>)"
proof -
  have doc: "paths scenario_document = [scenario_path] \<and> shapes scenario_document = []
      \<and> lines scenario_document = [] \<and> curves scenario_document = []"
    by (simp add: scenario_document_def)
  have "create_dxf_from_vectors scenario_document True =
     Inr ([], [DxfLWPolyline [(0, 20), (10, 20), (10, 10)] True ''PATHS''],
          stats0\<lparr>st_lines := 2, st_polylines := 1\<rparr>)"
    by (simp add: create_dxf_from_vectors_def scenario_height doc scenario_walk)
  with scenario_walk show ?thesis by simp
qed

subsection \<open>Degenerate geometry\<close>

text \<open>
  C9. A circle with a radius that is not positive and an ellipse with a radius that is not
  positive add no entity, and a polyline of fewer than two points adds none; nothing
  fails. A circle and an ellipse with positive radii add their entity.
\<close>

theorem degenerate_geometry_skipped:
  "(radius \<le> 0 \<longrightarrow> add_circle m center radius layer h = m)
   \<and> (0 < radius \<longrightarrow>
        add_circle m center radius layer h = m @ [DxfCircle (flip_y center h) radius layer])
   \<and> (rx \<le> 0 \<or> ry \<le> 0 \<longrightarrow> add_ellipse m center rx ry layer h = m)
   \<and> (0 < rx \<and> 0 < ry \<longrightarrow>
        add_ellipse m center rx ry layer h =
          m @ [DxfEllipse (flip_y center h) (if rx \<ge> ry then (rx, 0) else (0, ry))
                 (if rx \<ge> ry then ry / rx else rx / ry) layer])
   \<and> (length pts < 2 \<longrightarrow> add_polyline m pts layer h c = m)
   \<and> (sh_type sh = ''circle'' \<longrightarrow>
        fst (process_shape lb h (m, st) sh) =
          (if get_num (sh_radius sh) \<le> 0 then m
           else m @ [DxfCircle (flip_y (get_pt (sh_center sh)) h) (get_num (sh_radius sh))
                       (if lb then ''SHAPES'' else ''0'')]))
   \<and> (sh_type sh = ''ellipse'' \<and> (get_num (sh_radius_x sh) \<le> 0 \<or> get_num (sh_radius_y sh) \<le> 0)
        \<longrightarrow> fst (process_shape lb h (m, st) sh) = m)
   \<and> (sh_type sh = ''ellipse'' \<and> 0 < get_num (sh_radius_x sh) \<and> 0 < get_num (sh_radius_y sh)
        \<longrightarrow> (\<exists>axis ratio. fst (process_shape lb h (m, st) sh) =
               m @ [DxfEllipse (flip_y (get_pt (sh_center sh)) h) axis ratio
                      (if lb then ''SHAPES'' else ''0'')]))"
proof (intro conjI impI)
  show "radius \<le> 0 \<Longrightarrow> add_circle m center radius layer h = m"
    by (simp add: add_circle_def)
  show "0 < radius \<Longrightarrow>
        add_circle m center radius layer h = m @ [DxfCircle (flip_y center h) radius layer]"
    by (simp add: add_circle_def)
  show "rx \<le> 0 \<or> ry \<le> 0 \<Longrightarrow> add_ellipse m center rx ry layer h = m"
    by (simp add: add_ellipse_def)
  show "0 < rx \<and> 0 < ry \<Longrightarrow>
        add_ellipse m center rx ry layer h =
          m @ [DxfEllipse (flip_y center h) (if rx \<ge> ry then (rx, 0) else (0, ry))
                 (if rx \<ge> ry then ry / rx else rx / ry) layer]"
    by (simp add: add_ellipse_def Let_def)
  show "length pts < 2 \<Longrightarrow> add_polyline m pts layer h c = m"
    by (simp add: add_polyline_def)
  show "sh_type sh = ''circle'' \<Longrightarrow>
        fst (process_shape lb h (m, st) sh) =
          (if get_num (sh_radius sh) \<le> 0 then m
           else m @ [DxfCircle (flip_y (get_pt (sh_center sh)) h) (get_num (sh_radius sh))
                       (if lb then ''SHAPES'' else ''0'')])"
    by (simp add: process_shape_def add_circle_def Let_def)
  show "sh_type sh = ''ellipse'' \<and> (get_num (sh_radius_x sh) \<le> 0 \<or> get_num (sh_radius_y sh) \<le> 0)
        \<Longrightarrow> fst (process_shape lb h (m, st) sh) = m"
    by (auto simp add: process_shape_def add_ellipse_def Let_def)
  show "sh_type sh = ''ellipse'' \<and> 0 < get_num (sh_radius_x sh) \<and> 0 < get_num (sh_radius_y sh)
        \<Longrightarrow> \<exists>axis ratio. fst (process_shape lb h (m, st) sh) =
               m @ [DxfEllipse (flip_y (get_pt (sh_center sh)) h) axis ratio
                      (if lb then ''SHAPES'' else ''0'')]"
    by (simp add: process_shape_def add_ellipse_def Let_def)
qed

theorem degenerate_geometry_skipped_witness:
  "add_circle [] (5, 5) 0 ''SHAPES'' (Some 20) = []
   \<and> add_circle [] (5, 5) 3 ''SHAPES'' (Some 20) = [DxfCircle (5, 15) 3 ''SHAPES'']
   \<and> add_ellipse [] (5, 5) 0 2 ''SHAPES'' (Some 20) = []
   \<and> add_ellipse [] (5, 5) 4 2 ''SHAPES'' (Some 20) = [DxfEllipse (5, 15) (4, 0) (1 / 2) ''SHAPES'']
   \<and> add_polyline [] [(1, 1)] ''PATHS'' (Some 20) False = []
   \<and> fst (process_shape True (Some 20) ([], stats0) (circle_shape (- 1))) = []
   \<and> fst (process_shape True (Some 20) ([], stats0) (circle_shape 3))
       = [DxfCircle (5, 15) 3 ''SHAPES'']
   \<and> fst (process_shape True (Some 20) ([], stats0) (ellipse_shape 0 2)) = []
   \<and> (\<exists>axis ratio. fst (process_shape True (Some 20) ([], stats0) (ellipse_shape 4 2))
       = [DxfEllipse (5, 15) axis ratio ''SHAPES''])"
proof -
  have 1: "add_circle [] (5, 5) 0 ''SHAPES'' (Some 20) = []"
    using degenerate_geometry_skipped [where radius = 0 and m = "[]" and center = "(5, 5)" and layer = "''SHAPES''"
        and h = "Some 20"] by simp
  have 2: "add_circle [] (5, 5) 3 ''SHAPES'' (Some 20) = [DxfCircle (5, 15) 3 ''SHAPES'']"
    using degenerate_geometry_skipped [where radius = 3 and m = "[]" and center = "(5, 5)" and layer = "''SHAPES''"
        and h = "Some 20"] by (simp add: flip_y_def)
  have 3: "add_ellipse [] (5, 5) 0 2 ''SHAPES'' (Some 20) = []"
    using degenerate_geometry_skipped [where rx = 0 and ry = 2 and m = "[]" and center = "(5, 5)"
        and layer = "''SHAPES''" and h = "Some 20"] by simp
  have 4: "add_ellipse [] (5, 5) 4 2 ''SHAPES'' (Some 20)
      = [DxfEllipse (5, 15) (4, 0) (1 / 2) ''SHAPES'']"
    using degenerate_geometry_skipped [where rx = 4 and ry = 2 and m = "[]" and center = "(5, 5)"
        and layer = "''SHAPES''" and h = "Some 20"] by (simp add: flip_y_def)
  have 5: "add_polyline [] [(1, 1)] ''PATHS'' (Some 20) False = []"
    using degenerate_geometry_skipped [where pts = "[(1, 1)]" and m = "[]" and layer = "''PATHS''" and h = "Some 20"
        and c = False] by simp
  have 6: "fst (process_shape True (Some 20) ([], stats0) (circle_shape (- 1))) = []"
    using degenerate_geometry_skipped [where sh = "circle_shape (- 1)" and m = "[]" and lb = True and h = "Some 20"
        and st = stats0] by (simp add: circle_shape_def get_num_def)
  have 7: "fst (process_shape True (Some 20) ([], stats0) (circle_shape 3))
       = [DxfCircle (5, 15) 3 ''SHAPES'']"
    using degenerate_geometry_skipped [where sh = "circle_shape 3" and m = "[]" and lb = True and h = "Some 20"
        and st = stats0] by (simp add: circle_shape_def get_num_def get_pt_def flip_y_def)
  have 8: "fst (process_shape True (Some 20) ([], stats0) (ellipse_shape 0 2)) = []"
    using degenerate_geometry_skipped [where sh = "ellipse_shape 0 2" and m = "[]" and lb = True and h = "Some 20"
        and st = stats0] by (simp add: ellipse_shape_def get_num_def)
  have 9: "\<exists>axis ratio. fst (process_shape True (Some 20) ([], stats0) (ellipse_shape 4 2))
       = [DxfEllipse (5, 15) axis ratio ''SHAPES'']"
    using degenerate_geometry_skipped [where sh = "ellipse_shape 4 2" and m = "[]" and lb = True and h = "Some 20"
        and st = stats0] by (simp add: ellipse_shape_def get_num_def get_pt_def flip_y_def)
  from 1 2 3 4 5 6 7 8 9 show ?thesis by simp
qed

subsection \<open>Canvas height\<close>

text \<open>
  C4. The height attribute is not read with its unit suffix stripped: every character
  that is neither a digit nor a point is dropped, also inside the number. The attribute
  \<open>1e3\<close>, which \<open>float\<close> reads as 1000, resolves to 13; \<open>2.5e1mm\<close>, which is 25
  with the unit \<open>mm\<close>, resolves to 2.51; \<open>1e2\<close> resolves to 12, and the viewBox that
  is present is not looked at. The attribute \<open>100px\<close> resolves to 100.
\<close>

theorem height_digits_of_exponent_kept:
  "get_svg_height (doc_with (Some ''1e3'') None) = ([], Some 13)
   \<and> py_float ''1e3'' = Some 1000
   \<and> get_svg_height (doc_with (Some ''2.5e1mm'') None) = ([], Some (251 / 100))
   \<and> py_float ''2.5e1'' = Some 25
   \<and> get_svg_height (doc_with (Some ''1e2'') (Some ''0 0 50 80'')) = ([], Some 12)
   \<and> get_svg_height (doc_with (Some ''100px'') None) = ([], Some 100)"
  by (simp add: get_svg_height_def doc_with_def Let_def py_float_eval)

subsection \<open>Point lists of polylines and polygons\<close>



lemma filter_even_upt: "filter even [0..<m] = map (\<lambda>j. 2 * j) [0..<(m + 1) div 2]"
proof (induction m)
  case 0
  show ?case by simp
next
  case (Suc m)
  show ?case
  proof (cases "even m")
    case True
    then have "(Suc m + 1) div 2 = Suc ((m + 1) div 2)" by (auto elim: evenE)
    moreover from True have "2 * ((m + 1) div 2) = m" by (auto elim: evenE)
    ultimately show ?thesis using Suc True by simp
  next
    case False
    then have "(Suc m + 1) div 2 = (m + 1) div 2" by (auto elim: oddE)
    then show ?thesis using Suc False by simp
  qed
qed

lemma pair_indices_eq: "pair_indices coords = map (\<lambda>j. 2 * j) [0..<length coords div 2]"
proof (cases "length coords")
  case 0
  then show ?thesis by (simp add: pair_indices_def)
next
  case (Suc n)
  then show ?thesis by (simp add: pair_indices_def filter_even_upt)
qed

lemma collect_points_ok:
  "\<forall>i \<in> set is. py_float (coords ! i) \<noteq> None \<and> py_float (coords ! (i + 1)) \<noteq> None \<Longrightarrow>
   \<exists>pts. collect_points coords is = Inr pts \<and> length pts = length is
     \<and> (\<forall>j < length is. py_float (coords ! (is ! j)) = Some (fst (pts ! j))
          \<and> py_float (coords ! (is ! j + 1)) = Some (snd (pts ! j)))"
proof (induction "is")
  case Nil
  show ?case by simp
next
  case (Cons i "is")
  from Cons.prems obtain x y where x: "py_float (coords ! i) = Some x"
    and y: "py_float (coords ! (i + 1)) = Some y" by auto
  from Cons obtain pts where pts: "collect_points coords is = Inr pts" "length pts = length is"
    "\<forall>j < length is. py_float (coords ! (is ! j)) = Some (fst (pts ! j))
          \<and> py_float (coords ! (is ! j + 1)) = Some (snd (pts ! j))" by auto
  have run: "collect_points coords (i # is) = Inr ((x, y) # pts)"
    using x y pts(1) by simp
  have "\<forall>j < length (i # is). py_float (coords ! ((i # is) ! j)) = Some (fst (((x, y) # pts) ! j))
          \<and> py_float (coords ! ((i # is) ! j + 1)) = Some (snd (((x, y) # pts) ! j))"
  proof (intro allI impI)
    fix j assume "j < length (i # is)"
    then show "py_float (coords ! ((i # is) ! j)) = Some (fst (((x, y) # pts) ! j))
          \<and> py_float (coords ! ((i # is) ! j + 1)) = Some (snd (((x, y) # pts) ! j))"
      using x y pts(3) by (cases j) auto
  qed
  with run pts(2) show ?case by simp
qed

lemma collect_points_fail:
  "i \<in> set is \<Longrightarrow> py_float (coords ! i) = None \<or> py_float (coords ! (i + 1)) = None \<Longrightarrow>
   collect_points coords is = Inl ValueError"
proof (induction "is")
  case Nil
  then show ?case by simp
next
  case (Cons k "is")
  show ?case
  proof (cases "k = i")
    case True
    with Cons.prems(2) show ?thesis by (auto split: option.splits)
  next
    case False
    with Cons have "collect_points coords is = Inl ValueError" by simp
    then show ?thesis by (simp split: option.splits)
  qed
qed

text \<open>
  C10. When every paired token of a points string is a number, the extractor makes
  exactly \<open>floor(n / 2)\<close> points of the \<open>n\<close> tokens: point \<open>j\<close> is read from the
  tokens \<open>2j\<close> and \<open>2j + 1\<close>. With an odd number of tokens, \<open>2k + 1\<close>, these are
  \<open>k\<close> points from the first \<open>2k\<close> tokens, and the last token is never read.
\<close>

theorem odd_token_ignored:
  assumes t: "local_tag (tag e) = ''polyline'' \<or> local_tag (tag e) = ''polygon''"
    and c: "coords = point_tokens (get_str e ''points'' [])"
    and ok: "\<forall>i < 2 * (length coords div 2). py_float (coords ! i) \<noteq> None"
  shows "\<exists>sh pts. extract_shape e = Inr (Some sh) \<and> sh_points sh = Some pts
     \<and> sh_num_points sh = Some (length coords div 2)
     \<and> length pts = length coords div 2
     \<and> (\<forall>j < length coords div 2.
           py_float (coords ! (2 * j)) = Some (fst (pts ! j))
         \<and> py_float (coords ! (2 * j + 1)) = Some (snd (pts ! j)))"
proof -
  have "\<forall>i \<in> set (pair_indices coords).
      py_float (coords ! i) \<noteq> None \<and> py_float (coords ! (i + 1)) \<noteq> None"
    using ok by (auto simp add: pair_indices_eq)
  from collect_points_ok [OF this] obtain pts where
    run: "collect_points coords (pair_indices coords) = Inr pts"
    and len: "length pts = length (pair_indices coords)"
    and vals: "\<forall>j < length (pair_indices coords).
        py_float (coords ! (pair_indices coords ! j)) = Some (fst (pts ! j))
      \<and> py_float (coords ! (pair_indices coords ! j + 1)) = Some (snd (pts ! j))"
    by blast
  have len': "length pts = length coords div 2"
    using len by (simp add: pair_indices_eq)
  have vals': "\<forall>j < length coords div 2.
           py_float (coords ! (2 * j)) = Some (fst (pts ! j))
         \<and> py_float (coords ! (2 * j + 1)) = Some (snd (pts ! j))"
    using vals by (simp add: pair_indices_eq)
  have pp: "parse_points (get_str e ''points'' []) = Inr pts"
  proof (cases "get_str e ''points'' [] = []")
    case True
    then have "coords = []" using c by (simp add: point_tokens_def replace_commas_def py_split_def)
    then have "pts = []" using len' by simp
    with True show ?thesis by (simp add: parse_points_def)
  next
    case False
    then show ?thesis using run c by (simp add: parse_points_def Let_def)
  qed
  have "\<exists>sh. extract_shape e = Inr (Some sh) \<and> sh_points sh = Some pts
      \<and> sh_num_points sh = Some (length pts)"
    using t pp by (auto simp add: extract_shape_def Let_def bind_err_def)
  with len' vals' show ?thesis by auto
qed

lemma odd_polygon_tokens:
  "point_tokens (get_str odd_polygon ''points'' []) = [''0'', ''0'', ''10'', ''0'', ''5'']"
  by (simp add: odd_polygon_def get_str_def point_tokens_def replace_commas_def py_split_def
      isspace_def)

lemma odd_polygon_tag: "local_tag (tag odd_polygon) = ''polygon''"
  by (simp add: odd_polygon_def local_tag_def)

lemma all_less_4: "(\<forall>i < 4. P (i::nat)) \<longleftrightarrow> P 0 \<and> P 1 \<and> P 2 \<and> P 3"
proof -
  have "\<And>i::nat. i < 4 \<longleftrightarrow> i = 0 \<or> i = 1 \<or> i = 2 \<or> i = 3" by auto
  then show ?thesis by auto
qed

theorem odd_token_ignored_witness:
  "\<exists>sh pts. extract_shape odd_polygon = Inr (Some sh) \<and> sh_points sh = Some pts
     \<and> sh_num_points sh = Some 2 \<and> length pts = 2
     \<and> fst (pts ! 0) = 0 \<and> snd (pts ! 0) = 0 \<and> fst (pts ! 1) = 10 \<and> snd (pts ! 1) = 0"
proof -
  let ?cs = "[''0'', ''0'', ''10'', ''0'', ''5'']"
  have f0: "py_float ''0'' = Some 0" by (simp add: py_float_eval)
  have f10: "py_float ''10'' = Some 10" by (simp add: py_float_eval)
  have ok: "\<forall>i < 2 * (length ?cs div 2). py_float (?cs ! i) \<noteq> None"
    by (simp add: all_less_4 f0 f10)
  from odd_token_ignored [of odd_polygon ?cs, OF _ _ ok] odd_polygon_tag odd_polygon_tokens
  obtain sh pts where r: "extract_shape odd_polygon = Inr (Some sh)" "sh_points sh = Some pts"
     "sh_num_points sh = Some (length ?cs div 2)" "length pts = length ?cs div 2"
     "\<forall>j < length ?cs div 2.
           py_float (?cs ! (2 * j)) = Some (fst (pts ! j))
         \<and> py_float (?cs ! (2 * j + 1)) = Some (snd (pts ! j))"
    by auto
  have j0: "(0::nat) < length ?cs div 2" and j1: "(1::nat) < length ?cs div 2" by simp_all
  from r(5) [rule_format, OF j0] r(5) [rule_format, OF j1]
  have "fst (pts ! 0) = 0 \<and> snd (pts ! 0) = 0 \<and> fst (pts ! 1) = 10 \<and> snd (pts ! 1) = 0"
    by (simp add: f0 f10)
  with r show ?thesis by simp
qed

text \<open>
  C6, as the specification states it, fails: for the points attribute \<open>10,abc\<close> the
  extractor raises \<open>ValueError\<close>; there is no empty point list.
\<close>

theorem malformed_points_raise:
  "extract_shape_elements [malformed_polyline] = Inl ValueError"
  by (simp add: malformed_polyline_def extract_shape_def local_tag_def Let_def get_str_def
      parse_points_def point_tokens_def replace_commas_def py_split_def isspace_def
      pair_indices_def bind_err_def py_float_eval)

text \<open>
  C6, amended. A points attribute that is missing, empty or holds fewer than two tokens
  gives an empty point list; one whose paired tokens include a token that is no float
  literal makes the extractor fail with \<open>ValueError\<close>. A missing numeric attribute
  of a shape is read as 0.
\<close>

theorem points_extraction:
  "((local_tag (tag e) = ''polyline'' \<or> local_tag (tag e) = ''polygon'')
      \<and> length (point_tokens (get_str e ''points'' [])) < 2
      \<longrightarrow> (\<exists>sh. extract_shape e = Inr (Some sh) \<and> sh_points sh = Some []))
   \<and> ((local_tag (tag e) = ''polyline'' \<or> local_tag (tag e) = ''polygon'')
      \<and> i < 2 * (length (point_tokens (get_str e ''points'' [])) div 2)
      \<and> py_float (point_tokens (get_str e ''points'' []) ! i) = None
      \<and> \<not> non_finite_literal (point_tokens (get_str e ''points'' []) ! i)
      \<longrightarrow> extract_shape e = Inl ValueError)
   \<and> (attrib e k = None \<longrightarrow> float_attr e k = Inr 0)
   \<and> (\<exists>sh. extract_shape (bare ''rect'') = Inr (Some sh)
        \<and> sh_x sh = Some 0 \<and> sh_y sh = Some 0 \<and> sh_width sh = Some 0 \<and> sh_height sh = Some 0)
   \<and> (\<exists>sh. extract_shape (bare ''circle'') = Inr (Some sh)
        \<and> sh_center sh = Some (0, 0) \<and> sh_radius sh = Some 0)
   \<and> (\<exists>sh. extract_shape (bare ''ellipse'') = Inr (Some sh)
        \<and> sh_center sh = Some (0, 0) \<and> sh_radius_x sh = Some 0 \<and> sh_radius_y sh = Some 0)
   \<and> (\<exists>sh. extract_shape (bare ''line'') = Inr (Some sh)
        \<and> sh_start sh = Some (0, 0) \<and> sh_end sh = Some (0, 0))"
proof (intro conjI impI)
  let ?cs = "point_tokens (get_str e ''points'' [])"
  {
    assume a: "(local_tag (tag e) = ''polyline'' \<or> local_tag (tag e) = ''polygon'')
      \<and> length ?cs < 2"
    then have "length ?cs div 2 = 0" by simp
    then have "pair_indices ?cs = []" by (simp add: pair_indices_eq)
    then have "parse_points (get_str e ''points'' []) = Inr []"
      by (simp add: parse_points_def Let_def)
    with a show "\<exists>sh. extract_shape e = Inr (Some sh) \<and> sh_points sh = Some []"
      by (auto simp add: extract_shape_def Let_def bind_err_def)
  }
  {
    assume a: "(local_tag (tag e) = ''polyline'' \<or> local_tag (tag e) = ''polygon'')
      \<and> i < 2 * (length ?cs div 2) \<and> py_float (?cs ! i) = None
      \<and> \<not> non_finite_literal (?cs ! i)"
    define k where "k = 2 * (i div 2)"
    have kin: "k \<in> set (pair_indices ?cs)"
      using a by (auto simp add: pair_indices_eq k_def)
    have "i = k \<or> i = k + 1" unfolding k_def by presburger
    with a have "py_float (?cs ! k) = None \<or> py_float (?cs ! (k + 1)) = None" by auto
    from collect_points_fail [OF kin this]
    have cp: "collect_points ?cs (pair_indices ?cs) = Inl ValueError" .
    have ne: "get_str e ''points'' [] \<noteq> []"
    proof
      assume "get_str e ''points'' [] = []"
      then have "?cs = []" by (simp add: point_tokens_def replace_commas_def py_split_def)
      with a show False by simp
    qed
    from cp ne have "parse_points (get_str e ''points'' []) = Inl ValueError"
      by (simp add: parse_points_def Let_def)
    with a show "extract_shape e = Inl ValueError"
      by (auto simp add: extract_shape_def Let_def bind_err_def)
  }
  show "attrib e k = None \<Longrightarrow> float_attr e k = Inr 0"
    by (simp add: float_attr_def)
  show "\<exists>sh. extract_shape (bare ''rect'') = Inr (Some sh)
        \<and> sh_x sh = Some 0 \<and> sh_y sh = Some 0 \<and> sh_width sh = Some 0 \<and> sh_height sh = Some 0"
    by (simp add: extract_shape_def bare_def local_tag_def float_attr_def bind_err_def Let_def
        no_shape_def checked_edge_length_def edge_raises_def square_raises_def)
  show "\<exists>sh. extract_shape (bare ''circle'') = Inr (Some sh)
        \<and> sh_center sh = Some (0, 0) \<and> sh_radius sh = Some 0"
    by (simp add: extract_shape_def bare_def local_tag_def float_attr_def bind_err_def Let_def
        no_shape_def checked_edge_length_def edge_raises_def square_raises_def)
  show "\<exists>sh. extract_shape (bare ''ellipse'') = Inr (Some sh)
        \<and> sh_center sh = Some (0, 0) \<and> sh_radius_x sh = Some 0 \<and> sh_radius_y sh = Some 0"
    by (simp add: extract_shape_def bare_def local_tag_def float_attr_def bind_err_def Let_def
        no_shape_def checked_edge_length_def edge_raises_def square_raises_def)
  show "\<exists>sh. extract_shape (bare ''line'') = Inr (Some sh)
        \<and> sh_start sh = Some (0, 0) \<and> sh_end sh = Some (0, 0)"
    by (simp add: extract_shape_def bare_def local_tag_def float_attr_def bind_err_def Let_def
        no_shape_def checked_edge_length_def edge_raises_def square_raises_def)
qed

lemma bad_polygon_tokens:
  "point_tokens (get_str bad_polygon ''points'' []) = [''1'', ''2'', ''x'', ''4'']"
  by (simp add: bad_polygon_def get_str_def point_tokens_def replace_commas_def py_split_def
      isspace_def)

theorem points_extraction_witness:
  "(\<exists>sh. extract_shape (bare ''polyline'') = Inr (Some sh) \<and> sh_points sh = Some [])
   \<and> extract_shape bad_polygon = Inl ValueError
   \<and> float_attr (bare ''rect'') ''x'' = Inr 0"
proof -
  have x: "py_float ''x'' = None \<and> \<not> non_finite_literal ''x''"
    by (simp add: py_float_eval non_finite_literal_def to_lower_def)
  have 1: "\<exists>sh. extract_shape (bare ''polyline'') = Inr (Some sh) \<and> sh_points sh = Some []"
    using points_extraction [where e = "bare ''polyline''"]
    by (simp add: bare_def local_tag_def get_str_def point_tokens_def replace_commas_def
        py_split_def)
  have 2: "extract_shape bad_polygon = Inl ValueError"
    using points_extraction [where e = bad_polygon and i = 2] bad_polygon_tokens x
    by (simp add: bad_polygon_def local_tag_def)
  have 3: "float_attr (bare ''rect'') ''x'' = Inr 0"
    using points_extraction [where e = "bare ''rect''" and k = "''x''"] by (simp add: bare_def)
  from 1 2 3 show ?thesis by simp
qed

subsection \<open>Categorization\<close>


lemma categorize_single_shape:
  "categorize_shape sh = r \<Longrightarrow> categorize_vectors [] [sh] = r"
  by (cases r) (simp_all add: categorize_vectors_def bind_err_def)

lemma polyline_edges_ok:
  "\<forall>i \<in> set is. \<not> edge_raises (pts ! i) (pts ! (i + 1)) \<Longrightarrow>
   polyline_edges src pts is = Inr (map (edge_of src pts) is)"
  by (induction "is") (simp_all add: Let_def bind_err_def checked_edge_length_def edge_of_def)


lemma polyline_edges_raise:
  "i \<in> set is \<Longrightarrow> edge_raises (pts ! i) (pts ! (i + 1)) \<Longrightarrow>
   polyline_edges src pts is = Inl OverflowError"
proof (induction "is")
  case Nil
  then show ?case by simp
next
  case (Cons k "is")
  show ?case
  proof (cases "edge_raises (pts ! k) (pts ! (k + 1))")
    case True
    then show ?thesis by (simp add: Let_def bind_err_def checked_edge_length_def)
  next
    case False
    with Cons.prems have "i \<in> set is" by auto
    with Cons have "polyline_edges src pts is = Inl OverflowError" by simp
    with False show ?thesis by (simp add: Let_def bind_err_def checked_edge_length_def)
  qed
qed


lemma closing_edge_ok:
  "(c \<and> 3 \<le> length pts \<longrightarrow> \<not> edge_raises (last pts) (hd pts)) \<Longrightarrow>
   closing_edge src pts c =
     Inr (if c \<and> 3 \<le> length pts
          then [\<lparr>l_start = Some (last pts), l_end = Some (hd pts),
                  l_length = Some (edge_length (last pts) (hd pts)), l_source = src\<rparr>]
          else [])"
  by (auto simp add: closing_edge_def Let_def bind_err_def checked_edge_length_def)

lemma square_raises_huge: "square_raises (2 ^ 600)"
  by (simp add: square_raises_def)

lemma small_square: "\<bar>d\<bar> \<le> 4 \<Longrightarrow> \<not> square_raises d"
  by (simp add: square_raises_def)

text \<open>
  C7, as the specification states it, fails: for a polyline from \<open>(0,0)\<close> to
  \<open>(2\<^sup>6\<^sup>0\<^sup>0, 0)\<close> the categorizer gives no line, but raises \<open>OverflowError\<close> when
  it squares the difference of the coordinates.
\<close>

theorem huge_polyline_raises:
  "categorize_vectors [] [huge_polyline] = Inl OverflowError"
proof -
  have "edge_raises (0, 0) (2 ^ 600, 0)"
    using square_raises_huge by (simp add: edge_raises_def)
  then have "categorize_shape huge_polyline = Inl OverflowError"
    by (simp add: categorize_shape_def huge_polyline_def bind_err_def item_def Let_def
        checked_edge_length_def)
  then show ?thesis by (rule categorize_single_shape)
qed

text \<open>
  C7, amended. When no square of a coordinate difference overflows along the lines
  concerned (\<open>edge_raises\<close>: a difference of magnitude about \<open>1.34e154\<close> or more that
  is still finite as a double), a polyline or polygon with the points
  \<open>p\<^sub>0 \<dots> p\<^sub>N\<^sub>-\<^sub>1\<close> gives the \<open>N - 1\<close> lines from \<open>p\<^sub>i\<close> to \<open>p\<^sub>i\<^sub>+\<^sub>1\<close> in order (none
  when there is no point). When the shape is closed and \<open>N \<ge> 3\<close>, one more line from
  the last point to the first follows, \<open>N\<close> lines in all; when \<open>N < 3\<close> there is no
  closing line.
\<close>

theorem polyline_categorization:
  assumes t: "sh_type sh = ''polyline'' \<or> sh_type sh = ''polygon''"
    and p: "sh_points sh = Some pts"
    and c: "sh_closed sh = Some c"
    and ok: "\<forall>i < length pts - 1. \<not> edge_raises (pts ! i) (pts ! (i + 1))"
    and okc: "c \<and> 3 \<le> length pts \<longrightarrow> \<not> edge_raises (last pts) (hd pts)"
  shows "\<exists>ls. categorize_vectors [] [sh] = Inr (ls, [])
     \<and> map (\<lambda>l. (l_start l, l_end l)) ls
         = map (\<lambda>i. (Some (pts ! i), Some (pts ! (i + 1)))) [0..<length pts - 1]
           @ (if c \<and> 3 \<le> length pts then [(Some (last pts), Some (hd pts))] else [])
     \<and> length ls = (length pts - 1) + (if c \<and> 3 \<le> length pts then 1 else 0)
     \<and> (c \<and> 3 \<le> length pts \<longrightarrow> length ls = length pts)
     \<and> (length pts < 3 \<longrightarrow> length ls = length pts - 1)
     \<and> (\<forall>l \<in> set ls. l_source l = sh_type sh)"
proof -
  let ?edges = "map (edge_of (sh_type sh) pts) [0..<length pts - 1]"
  let ?closing = "(if c \<and> 3 \<le> length pts
          then [\<lparr>l_start = Some (last pts), l_end = Some (hd pts),
                  l_length = Some (edge_length (last pts) (hd pts)),
                  l_source = sh_type sh\<rparr>]
          else [])"
  let ?ls = "?edges @ ?closing"
  have e: "polyline_edges (sh_type sh) pts [0..<length pts - 1] = Inr ?edges"
    using ok by (intro polyline_edges_ok) simp
  have cl: "closing_edge (sh_type sh) pts c = Inr ?closing"
    using okc by (rule closing_edge_ok)
  have "categorize_shape sh = Inr (?ls, [])"
    using t p c e cl by (auto simp add: categorize_shape_def bind_err_def item_def)
  then have run: "categorize_vectors [] [sh] = Inr (?ls, [])"
    by (rule categorize_single_shape)
  have ends: "map (\<lambda>l. (l_start l, l_end l)) ?ls
         = map (\<lambda>i. (Some (pts ! i), Some (pts ! (i + 1)))) [0..<length pts - 1]
           @ (if c \<and> 3 \<le> length pts then [(Some (last pts), Some (hd pts))] else [])"
    by (simp add: edge_of_def comp_def)
  have len: "length ?ls = (length pts - 1) + (if c \<and> 3 \<le> length pts then 1 else 0)"
    by simp
  have src: "\<forall>l \<in> set ?ls. l_source l = sh_type sh"
    by (auto simp add: edge_of_def)
  from len have l3: "c \<and> 3 \<le> length pts \<longrightarrow> length ?ls = length pts"
    and l2: "length pts < 3 \<longrightarrow> length ?ls = length pts - 1" by auto
  from run ends len l3 l2 src show ?thesis by blast
qed

theorem polyline_categorization_witness:
  "(\<exists>ls. categorize_vectors [] [triangle True] = Inr (ls, [])
      \<and> map (\<lambda>l. (l_start l, l_end l)) ls
          = [(Some (0, 0), Some (4, 0)), (Some (4, 0), Some (4, 3)), (Some (4, 3), Some (0, 0))]
      \<and> length ls = 3)
   \<and> (\<exists>ls. categorize_vectors [] [triangle False] = Inr (ls, [])
      \<and> map (\<lambda>l. (l_start l, l_end l)) ls
          = [(Some (0, 0), Some (4, 0)), (Some (4, 0), Some (4, 3))]
      \<and> length ls = 2)
   \<and> (\<exists>ls. categorize_vectors [] [two_point_polygon] = Inr (ls, [])
      \<and> map (\<lambda>l. (l_start l, l_end l)) ls = [(Some (0, 0), Some (4, 0))]
      \<and> length ls = 1)"
proof -
  let ?tri = "[(0, 0), (4, 0), (4, 3)] :: point list"
  let ?two = "[(0, 0), (4, 0)] :: point list"
  have u: "[0..<2] = [0, Suc 0]" by (simp add: upt_rec)
  have ok3: "\<forall>i < length ?tri - 1. \<not> edge_raises (?tri ! i) (?tri ! (i + 1))"
  proof (intro allI impI)
    fix i assume "i < length ?tri - 1"
    then have "i = 0 \<or> i = 1" by auto
    then show "\<not> edge_raises (?tri ! i) (?tri ! (i + 1))"
      by (auto simp add: edge_raises_def small_square)
  qed
  have ok2: "\<forall>i < length ?two - 1. \<not> edge_raises (?two ! i) (?two ! (i + 1))"
    by (simp add: edge_raises_def small_square)
  have okc: "\<not> edge_raises (last ?tri) (hd ?tri)"
    by (simp add: edge_raises_def small_square)
  have 1: "\<exists>ls. categorize_vectors [] [triangle True] = Inr (ls, [])
      \<and> map (\<lambda>l. (l_start l, l_end l)) ls
          = [(Some (0, 0), Some (4, 0)), (Some (4, 0), Some (4, 3)), (Some (4, 3), Some (0, 0))]
      \<and> length ls = 3"
    using polyline_categorization [of "triangle True" ?tri True, OF _ _ _ ok3] okc
    by (simp add: triangle_def u) (auto simp add: numeral_3_eq_3 numeral_2_eq_2)
  have 2: "\<exists>ls. categorize_vectors [] [triangle False] = Inr (ls, [])
      \<and> map (\<lambda>l. (l_start l, l_end l)) ls
          = [(Some (0, 0), Some (4, 0)), (Some (4, 0), Some (4, 3))]
      \<and> length ls = 2"
    using polyline_categorization [of "triangle False" ?tri False, OF _ _ _ ok3]
    by (simp add: triangle_def u) (auto simp add: numeral_3_eq_3 numeral_2_eq_2)
  have 3: "\<exists>ls. categorize_vectors [] [two_point_polygon] = Inr (ls, [])
      \<and> map (\<lambda>l. (l_start l, l_end l)) ls = [(Some (0, 0), Some (4, 0))]
      \<and> length ls = 1"
    using polyline_categorization [of two_point_polygon ?two True, OF _ _ _ ok2]
    by (simp add: two_point_polygon_def) (auto simp add: numeral_3_eq_3 numeral_2_eq_2)
  from 1 2 3 show ?thesis by simp
qed















end
